theory Spec2Isabelle
  imports Complex_Main
begin

section \<open>JavaScript values used by the services\<close>


definition digit_char :: "nat \<Rightarrow> char" where
  "digit_char d = ''0123456789'' ! d"

fun string_of_nat :: "nat \<Rightarrow> string" where
  "string_of_nat n =
     (if n < 10 then [digit_char n]
      else string_of_nat (n div 10) @ [digit_char (n mod 10)])"

declare string_of_nat.simps [simp del]

text \<open>
  Template-literal rendering of an integer-valued number; it is the decimal numeral for
  magnitudes below \<open>10^21\<close>, which covers every value rendered by the services.
\<close>

definition js_int_to_string :: "int \<Rightarrow> string" where
  "js_int_to_string i =
     (if i < 0 then ''-'' @ string_of_nat (nat (- i)) else string_of_nat (nat i))"

section \<open>gisService: spatial predicates, risk level, district\<close>

record violation =
  vtype :: string
  feature :: string
  severity :: string
  distance :: "string option"


text \<open>
  A GeoJSON feature: \<open>name\<close> is \<open>properties?.name\<close> (\<open>None\<close> when the properties or
  the name are absent), the geometry is left abstract.
\<close>

record 'g geo_feature =
  name :: "string option"
  geometry :: 'g

record 'g feature_collection =
  features :: "'g geo_feature list option"

record 'g gis_layers =
  waterbodies :: "'g feature_collection option"
  waterways :: "'g feature_collection option"
  vulnerableLocalities :: "'g feature_collection option"
  greenCover :: "'g feature_collection option"
  channels :: "'g feature_collection option"
  contours :: "'g feature_collection option"

text \<open>
  The three functions of the turf library that \<open>checkProtectedZone\<close> calls are
  parameters of the model. A point is \<open>turf.point([lng, lat])\<close>.
\<close>

record 'g turf =
  booleanPointInPolygon :: "real \<times> real \<Rightarrow> 'g geo_feature \<Rightarrow> bool"
  buffer :: "'g geo_feature \<Rightarrow> real \<Rightarrow> 'g geo_feature"
  pointToLineDistance :: "real \<times> real \<Rightarrow> 'g geo_feature \<Rightarrow> real"











record risk =
  level :: string
  score :: int

definition add_weight :: "violation \<Rightarrow> int \<Rightarrow> int" where
  "add_weight v s =
     (if severity v = ''HIGH'' then s + 10
      else if severity v = ''MEDIUM'' then s + 5
      else s + 2)"

definition calculateRiskLevel :: "violation list \<Rightarrow> risk" where
  "calculateRiskLevel vs =
     (if length vs = 0 then \<lparr>level = ''LOW'', score = 0\<rparr>
      else
        (let sc = fold add_weight vs 0 in
         if sc \<ge> 10 then \<lparr>level = ''HIGH'', score = sc\<rparr>
         else if sc \<ge> 5 then \<lparr>level = ''MEDIUM'', score = sc\<rparr>
         else \<lparr>level = ''LOW'', score = sc\<rparr>))"

definition getDistrict :: "real \<Rightarrow> real \<Rightarrow> string" where
  "getDistrict lat lng =
     (if lat \<ge> 17.3 \<and> lat \<le> 17.5 \<and> lng \<ge> 78.4 \<and> lng \<le> 78.6 then ''Hyderabad''
      else if lat \<ge> 17.5 \<and> lat \<le> 18.0 \<and> lng \<ge> 78.4 \<and> lng \<le> 78.8 then ''Medchal''
      else if lat \<ge> 17.6 \<and> lat \<le> 18.0 \<and> lng \<ge> 77.8 \<and> lng \<le> 78.2 then ''Sangareddy''
      else if lat \<ge> 17.2 \<and> lat \<le> 17.8 \<and> lng \<ge> 77.5 \<and> lng \<le> 78.2 then ''Vikarabad''
      else if lat \<ge> 17.2 \<and> lat \<le> 17.6 \<and> lng \<ge> 78.2 \<and> lng \<le> 78.8 then ''Rangareddy''
      else ''Unknown'')"

section \<open>mlModelService: region extraction and building detection\<close>

text \<open>
  A region of the change mask. The source's bounding box \<open>{x, y, x2, y2}\<close> is the
  record \<open>region_bbox\<close> with fields \<open>rx\<close>, \<open>ry\<close>, \<open>rx2\<close>, \<open>ry2\<close>; the region's
  \<open>id\<close> is \<open>rid\<close>.
\<close>

record region_bbox =
  rx :: int
  ry :: int
  rx2 :: int
  ry2 :: int

record region =
  rid :: nat
  pixels :: "(int \<times> int) list"
  bbox :: region_bbox

text \<open>
  \<open>maskData[idx]\<close> on a typed array: \<open>None\<close> is \<open>undefined\<close>, outside the array.
\<close>

definition js_index :: "real list \<Rightarrow> int \<Rightarrow> real option" where
  "js_index xs i = (if 0 \<le> i \<and> i < int (length xs) then Some (xs ! nat i) else None)"

text \<open>\<open>maskData[idx] > 0.5\<close>; a comparison with \<open>undefined\<close> is false.\<close>

definition above_half :: "real option \<Rightarrow> bool" where
  "above_half v = (case v of None \<Rightarrow> False | Some r \<Rightarrow> r > 0.5)"

text \<open>\<open>(maskData[idx] || 0) < 0.5\<close>.\<close>

definition below_half :: "real option \<Rightarrow> bool" where
  "below_half v = (case v of None \<Rightarrow> True | Some r \<Rightarrow> (if r = 0 then 0 else r) < 0.5)"

text \<open>
  The four neighbours in the order of \<open>stack.push\<close>; the last one pushed is popped
  first, so the stack is a list whose head is the top.
\<close>

definition neighbours :: "int \<Rightarrow> int \<Rightarrow> int \<Rightarrow> (int \<times> int) list" where
  "neighbours sampleRate x y =
     (if sampleRate = 1 then [(x, y - 1), (x, y + 1), (x - 1, y), (x + 1, y)]
      else [(x, y - sampleRate), (x, y + sampleRate), (x - sampleRate, y), (x + sampleRate, y)])"

definition add_pixel :: "region \<Rightarrow> int \<Rightarrow> int \<Rightarrow> region" where
  "add_pixel r x y =
     r\<lparr>pixels := pixels r @ [(x, y)],
       bbox := \<lparr>rx = min (rx (bbox r)) x, ry = min (ry (bbox r)) y,
                rx2 = max (rx2 (bbox r)) x, ry2 = max (ry2 (bbox r)) y\<rparr>\<rparr>"

text \<open>
  The \<open>while\<close> loop of \<open>floodFill\<close>, with \<open>maxPixels = 1000\<close>. The visited set and the
  region are the two objects the loop mutates.
\<close>

function floodFill_loop ::
  "real list \<Rightarrow> int \<Rightarrow> int \<Rightarrow> int \<Rightarrow> (int \<times> int) list \<Rightarrow> int set \<Rightarrow> region
     \<Rightarrow> int set \<times> region" where
  "floodFill_loop maskData width height sampleRate stack visited region =
     (case stack of
        [] \<Rightarrow> (visited, region)
      | (x, y) # rest \<Rightarrow>
          if \<not> length (pixels region) < 1000 then (visited, region)
          else
            (let idx = y * width + x in
             if x < 0 \<or> x \<ge> width \<or> y < 0 \<or> y \<ge> height \<or> idx \<ge> int (length maskData)
                \<or> idx \<in> visited \<or> below_half (js_index maskData idx)
             then floodFill_loop maskData width height sampleRate rest visited region
             else floodFill_loop maskData width height sampleRate
                    (neighbours sampleRate x y @ rest) (insert idx visited)
                    (add_pixel region x y)))"
  by pat_completeness auto
termination
  by (relation "measures [\<lambda>(m, w, h, s, st, v, r). 1000 - length (pixels r),
                          \<lambda>(m, w, h, s, st, v, r). length st]")
     (auto simp: add_pixel_def)

declare floodFill_loop.simps [simp del]

definition floodFill ::
  "real list \<Rightarrow> int set \<Rightarrow> int \<Rightarrow> int \<Rightarrow> int \<Rightarrow> int \<Rightarrow> region \<Rightarrow> int \<Rightarrow> int set \<times> region" where
  "floodFill maskData visited startX startY width height region sampleRate =
     floodFill_loop maskData width height sampleRate [(startX, startY)] visited region"

text \<open>
  The body of the two \<open>for\<close> loops of \<open>findChangeRegions\<close> at one sample \<open>(x, y)\<close>, on
  the visited set and the list of accepted regions.
\<close>

definition scan_sample ::
  "real list \<Rightarrow> int \<Rightarrow> int \<Rightarrow> int \<Rightarrow> int \<Rightarrow> int set \<times> region list \<Rightarrow> int set \<times> region list" where
  "scan_sample maskData width height y x st =
     (let visited = fst st; regions = snd st; idx = y * width + x in
      if idx < int (length maskData) \<and> above_half (js_index maskData idx) \<and> idx \<notin> visited
      then
        (let region0 = \<lparr>rid = length regions, pixels = [(x, y)],
                         bbox = \<lparr>rx = x, ry = y, rx2 = x, ry2 = y\<rparr>\<rparr>;
             filled = floodFill maskData visited x y width height region0 4
         in (fst filled,
             if length (pixels (snd filled)) \<ge> 10 then regions @ [snd filled] else regions))
      else st)"

function scan_row ::
  "real list \<Rightarrow> int \<Rightarrow> int \<Rightarrow> int \<Rightarrow> int \<Rightarrow> int set \<times> region list \<Rightarrow> int set \<times> region list" where
  "scan_row maskData width height y x st =
     (if x < width
      then scan_row maskData width height y (x + 4) (scan_sample maskData width height y x st)
      else st)"
  by pat_completeness auto
termination
  by (relation "measure (\<lambda>(m, w, h, y, x, st). nat (w - x))") auto

declare scan_row.simps [simp del]

function scan_rows ::
  "real list \<Rightarrow> int \<Rightarrow> int \<Rightarrow> int \<Rightarrow> int set \<times> region list \<Rightarrow> int set \<times> region list" where
  "scan_rows maskData width height y st =
     (if y < height
      then scan_rows maskData width height (y + 4) (scan_row maskData width height y 0 st)
      else st)"
  by pat_completeness auto
termination
  by (relation "measure (\<lambda>(m, w, h, y, st). nat (h - y))") auto

declare scan_rows.simps [simp del]

text \<open>
  \<open>findChangeRegions\<close> on the data of the mask tensor; \<open>regions.slice(0, 20)\<close> keeps the
  first twenty accepted regions.
\<close>

definition findChangeRegions :: "real list \<Rightarrow> int \<Rightarrow> int \<Rightarrow> region list" where
  "findChangeRegions maskData width height =
     take 20 (snd (scan_rows maskData width height 0 ({}, [])))"

subsection \<open>Inference stages\<close>

datatype js_error = Error string | TypeError string

text \<open>
  What the imagery functions return: always an object, with the URL of the composite
  image and its date; the historical image also has its year and the years back.
\<close>

record image =
  url :: string
  date :: string
  year :: "int option"
  yearsBack :: "int option"

text \<open>
  The output tensor of the change model: its data (\<open>None\<close> when reading \<open>data()\<close>
  fails) and its shape.
\<close>

record prediction =
  pdata :: "real list option"
  pshape :: "int list"

record changeMask =
  cm_mask :: "real list option"
  cm_regions :: "region list"
  cm_confidence :: "real list"

text \<open>\<open>shape[i] || 512\<close>.\<close>

definition shape_dim :: "int list \<Rightarrow> nat \<Rightarrow> int" where
  "shape_dim s i = (if i < length s \<and> s ! i \<noteq> 0 then s ! i else 512)"

text \<open>\<open>tf.greater(prediction, 0.5)\<close>, read back as zeros and ones.\<close>

definition binary_mask :: "real list \<Rightarrow> real list" where
  "binary_mask d = map (\<lambda>v. if v > 0.5 then 1 else 0) d"

definition postprocessChangeMask :: "prediction \<Rightarrow> changeMask" where
  "postprocessChangeMask p =
     (case pdata p of
        None \<Rightarrow> \<lparr>cm_mask = None, cm_regions = [], cm_confidence = []\<rparr>
      | Some d \<Rightarrow>
          (let height = shape_dim (pshape p) 1;
               width = shape_dim (pshape p) 2;
               binaryMask = binary_mask d
           in \<lparr>cm_mask = Some binaryMask,
               cm_regions = findChangeRegions binaryMask width height,
               cm_confidence = d\<rparr>))"

text \<open>
  A building detection. The pixel box \<open>{x, y, width, height}\<close> is the record
  \<open>pixel_box\<close> with fields \<open>box_x\<close>, \<open>box_y\<close>, \<open>box_width\<close>, \<open>box_height\<close>;
  \<open>b_class\<close> is \<open>None\<close> when the class tensor has no entry.
\<close>

record pixel_box =
  box_x :: real
  box_y :: real
  box_width :: real
  box_height :: real

record building =
  b_id :: string
  b_bbox :: pixel_box
  b_confidence :: real
  b_class :: "real option"

text \<open>
  What \<open>maskRCNNModel.predict\<close> returns: an array of tensors (boxes of shape
  \<open>[1, N, 4]\<close>, scores, classes), a single tensor, or another object (a tensor map, or
  the promise of the placeholder model). Only a single tensor has a \<open>dispose\<close> method.
\<close>

record raw_detections =
  boxes :: "(real \<times> real \<times> real \<times> real) list"
  scores :: "real list"
  classes :: "real list"

datatype predictions = TensorArray raw_detections | SingleTensor | OtherObject

definition detection_at :: "raw_detections \<Rightarrow> real \<Rightarrow> real \<Rightarrow> nat \<Rightarrow> building list" where
  "detection_at raw originalWidth originalHeight i =
     (case js_index (scores raw) (int i) of
        None \<Rightarrow> []
      | Some sc \<Rightarrow>
          if sc > 0.5
          then (case boxes raw ! i of (b0, b1, b2, b3) \<Rightarrow>
                  [\<lparr>b_id = ''building_'' @ js_int_to_string (int i),
                    b_bbox = \<lparr>box_x = b0 * originalWidth, box_y = b1 * originalHeight,
                              box_width = (b2 - b0) * originalWidth,
                              box_height = (b3 - b1) * originalHeight\<rparr>,
                    b_confidence = sc,
                    b_class = js_index (classes raw) (int i)\<rparr>])
          else [])"

definition postprocessMaskRCNN :: "predictions \<Rightarrow> real \<Rightarrow> real \<Rightarrow> building list" where
  "postprocessMaskRCNN preds originalWidth originalHeight =
     (case preds of
        TensorArray raw \<Rightarrow>
          (let numDetections = min (length (boxes raw)) 100
           in concat (map (detection_at raw originalWidth originalHeight) [0..<numDetections]))
      | _ \<Rightarrow> [])"

definition center_in_region :: "building \<Rightarrow> region \<Rightarrow> bool" where
  "center_in_region b r =
     (let centerX = box_x (b_bbox b) + box_width (b_bbox b) / 2;
          centerY = box_y (b_bbox b) + box_height (b_bbox b) / 2
      in centerX \<ge> of_int (rx (bbox r)) \<and> centerX \<le> of_int (rx2 (bbox r))
         \<and> centerY \<ge> of_int (ry (bbox r)) \<and> centerY \<le> of_int (ry2 (bbox r)))"

definition filterBuildingsInChangeRegions :: "building list \<Rightarrow> region list \<Rightarrow> building list" where
  "filterBuildingsInChangeRegions buildings changeRegions =
     filter (\<lambda>b. list_ex (center_in_region b) changeRegions) buildings"

text \<open>
  The collaborators outside the services: the turf library, the loaded GIS layers, the
  imagery source, the two model runs (image loading, preprocessing and \<open>predict\<close>; the
  building run also gives the image size), \<open>Math.random\<close> as the sequence of its
  results, the clock, \<open>toISOString\<close> and \<open>parseFloat\<close> (\<open>None\<close> is \<open>NaN\<close>).
\<close>

record 'g env =
  turf_lib :: "'g turf"
  loadGISLayers :: "'g gis_layers"
  getHistoricalImagery :: "real \<Rightarrow> real \<Rightarrow> image"
  getCurrentImagery :: "real \<Rightarrow> real \<Rightarrow> image"
  unet_predict :: "image \<Rightarrow> image \<Rightarrow> js_error + prediction"
  maskrcnn_predict :: "image \<Rightarrow> js_error + predictions \<times> real \<times> real"
  random :: "nat \<Rightarrow> real"
  now :: int
  toISOString :: "int \<Rightarrow> string"
  parseFloat :: "string \<Rightarrow> real option"

section \<open>changeDetectionService and the analysis entry point\<close>

record coords =
  c_lat :: real
  c_lng :: real

record change =
  c_id :: string
  coordinates :: coords
  area :: real
  c_type :: "string option"
  c_confidence :: real
  detectedDate :: string
  c_beforeImage :: string
  c_afterImage :: string
  c_bbox :: "pixel_box option"
  detectionMethod :: string

record detection =
  hasChange :: bool
  d_confidence :: real
  changes :: "change list"
  analysisDate :: string
  d_method :: string
  changeRegions :: "nat option"
  buildingsDetected :: "nat option"

record site =
  s_change :: change
  riskLevel :: string
  riskScore :: int
  s_violations :: "violation list"
  district :: string
  status :: string
  reportedDate :: string
  evidence :: "string \<times> string \<times> coords"

text \<open>
  What a run does to the world: the number of \<open>Math.random\<close> results consumed, the
  calls made to the collaborators, in order, and the sites kept in local storage.
\<close>

datatype event = LoadGISLayers | FetchImagery | UNetInference | MaskRCNNInference | SaveSites

record world =
  draws :: nat
  events :: "event list"
  stored :: "site list"

definition detectChangesWithUNet ::
  "'g env \<Rightarrow> world \<Rightarrow> image \<Rightarrow> image \<Rightarrow> (js_error + changeMask) \<times> world" where
  "detectChangesWithUNet env w beforeImage afterImage =
     (let w1 = w\<lparr>events := events w @ [UNetInference]\<rparr> in
      case unet_predict env beforeImage afterImage of
        Inl e \<Rightarrow> (Inl e, w1)
      | Inr p \<Rightarrow> (Inr (postprocessChangeMask p), w1))"

text \<open>
  With regions the filtered detections are returned at once; without regions the tensors
  are disposed first, and \<open>predictions.dispose()\<close> is a call of a missing method unless
  the predictions are a single tensor.
\<close>

definition detectBuildingsWithMaskRCNN ::
  "'g env \<Rightarrow> world \<Rightarrow> image \<Rightarrow> region list \<Rightarrow> (js_error + building list) \<times> world" where
  "detectBuildingsWithMaskRCNN env w img regions =
     (let w1 = w\<lparr>events := events w @ [MaskRCNNInference]\<rparr> in
      case maskrcnn_predict env img of
        Inl e \<Rightarrow> (Inl e, w1)
      | Inr (preds, imgWidth, imgHeight) \<Rightarrow>
          (let buildings = postprocessMaskRCNN preds imgWidth imgHeight in
           if length regions > 0
           then (Inr (filterBuildingsInChangeRegions buildings regions), w1)
           else if preds = SingleTensor then (Inr buildings, w1)
           else (Inl (TypeError ''predictions.dispose is not a function''), w1)))"

definition pixelToLatLng :: "real \<Rightarrow> real \<Rightarrow> real \<Rightarrow> real \<Rightarrow> real \<Rightarrow> real \<Rightarrow> nat \<Rightarrow> coords" where
  "pixelToLatLng px py centerLat centerLng imageWidth imageHeight zoom =
     (let latOffset = (py - imageHeight / 2) / (256 * 2 ^ zoom) * 180;
          lngOffset = (px - imageWidth / 2) / (256 * 2 ^ zoom) * 360
      in \<lparr>c_lat = centerLat + latOffset, c_lng = centerLng + lngOffset\<rparr>)"

text \<open>The callback of \<open>buildings.map\<close> in \<open>detectChanges\<close>.\<close>

definition building_change :: "'g env \<Rightarrow> image \<Rightarrow> image \<Rightarrow> coords \<Rightarrow> nat \<times> building \<Rightarrow> change" where
  "building_change env beforeImage afterImage center ib =
     (let idx = fst ib; b = snd ib; bb = b_bbox b;
          pos = pixelToLatLng (box_x bb + box_width bb / 2) (box_y bb + box_height bb / 2)
                  (c_lat center) (c_lng center) 800 800 14;
          ar = (box_width bb * box_height bb) * 0.5
      in \<lparr>c_id = (if b_id b = [] then ''change_'' @ js_int_to_string (now env) @ ''_''
                         @ js_int_to_string (int idx)
                  else b_id b),
          coordinates = pos,
          area = max ar 50,
          c_type = Some (if b_class b = Some 1 then ''Residential Building''
                         else if b_class b = Some 2 then ''Commercial Structure''
                         else ''Infrastructure''),
          c_confidence = (if b_confidence b = 0 then 0.8 else b_confidence b),
          detectedDate = toISOString env (now env),
          c_beforeImage = url beforeImage,
          c_afterImage = url afterImage,
          c_bbox = Some bb,
          detectionMethod = ''UNet + Mask R-CNN''\<rparr>)"

text \<open>\<open>new Date(t)\<close> keeps the integer part of a time value.\<close>

definition js_trunc :: "real \<Rightarrow> int" where
  "js_trunc t = (if t \<ge> 0 then \<lfloor>t\<rfloor> else \<lceil>t\<rceil>)"

definition structure_types :: "string list" where
  "structure_types = [''Residential Building'', ''Commercial Structure'', ''Infrastructure'']"

definition nth_opt :: "'a list \<Rightarrow> int \<Rightarrow> 'a option" where
  "nth_opt xs i = (if 0 \<le> i \<and> i < int (length xs) then Some (xs ! nat i) else None)"

text \<open>
  One round of the \<open>for\<close> loop of \<open>fallbackDetection\<close>; it consumes six random numbers,
  in the order of the source.
\<close>

definition fallback_change :: "'g env \<Rightarrow> image \<Rightarrow> image \<Rightarrow> coords \<Rightarrow> int \<Rightarrow> nat \<Rightarrow> change" where
  "fallback_change env beforeImage afterImage center i k =
     (let offsetLat = (random env k - 0.5) * 0.01;
          offsetLng = (random env (k + 1) - 0.5) * 0.01
      in \<lparr>c_id = ''change_'' @ js_int_to_string (now env) @ ''_'' @ js_int_to_string i,
          coordinates = \<lparr>c_lat = c_lat center + offsetLat, c_lng = c_lng center + offsetLng\<rparr>,
          area = random env (k + 2) * 500 + 100,
          c_type = nth_opt structure_types \<lfloor>random env (k + 3) * 3\<rfloor>,
          c_confidence = random env (k + 4) * 0.3 + 0.7,
          detectedDate = toISOString env
             (js_trunc (of_int (now env) - random env (k + 5) * 90 * 24 * 60 * 60 * 1000)),
          c_beforeImage = url beforeImage,
          c_afterImage = url afterImage,
          c_bbox = None,
          detectionMethod = ''Fallback''\<rparr>)"

function fallback_loop ::
  "'g env \<Rightarrow> image \<Rightarrow> image \<Rightarrow> coords \<Rightarrow> int \<Rightarrow> int \<Rightarrow> change list \<times> world
     \<Rightarrow> change list \<times> world" where
  "fallback_loop env beforeImage afterImage center numChanges i st =
     (if i < numChanges
      then fallback_loop env beforeImage afterImage center numChanges (i + 1)
             (fst st @ [fallback_change env beforeImage afterImage center i (draws (snd st))],
              (snd st)\<lparr>draws := draws (snd st) + 6\<rparr>)
      else st)"
  by pat_completeness auto
termination
  by (relation "measure (\<lambda>(e, b, a, c, n, i, st). nat (n - i))") auto

declare fallback_loop.simps [simp del]

definition fallbackDetection ::
  "'g env \<Rightarrow> world \<Rightarrow> image \<Rightarrow> image \<Rightarrow> coords \<Rightarrow> detection \<times> world" where
  "fallbackDetection env w beforeImage afterImage center =
     (let changeProbability = random env (draws w);
          w1 = w\<lparr>draws := draws w + 1\<rparr>;
          hasSignificantChange = (changeProbability > 0.6)
      in if \<not> hasSignificantChange
         then (\<lparr>hasChange = False, d_confidence = 1 - changeProbability, changes = [],
                 analysisDate = toISOString env (now env),
                 d_method = ''Fallback (No ML models available)'',
                 changeRegions = None, buildingsDetected = None\<rparr>, w1)
         else
           (let numChanges = \<lfloor>random env (draws w1) * 3\<rfloor> + 1;
                w2 = w1\<lparr>draws := draws w1 + 1\<rparr>;
                done = fallback_loop env beforeImage afterImage center numChanges 0 ([], w2)
            in (\<lparr>hasChange = True, d_confidence = changeProbability, changes = fst done,
                  analysisDate = toISOString env (now env),
                  d_method = ''Fallback (No ML models available)'',
                  changeRegions = None, buildingsDetected = None\<rparr>, snd done)))"

text \<open>
  \<open>detectChanges\<close>: the \<open>try\<close> block with its early return, and the \<open>catch\<close> block
  that runs the fallback on whatever either model stage throws. The change mask always
  carries its \<open>regions\<close> and \<open>confidence\<close> arrays, so the overall confidence is the
  \<open>reduce\<close> with \<open>Math.max\<close> from 0.
\<close>

definition detectChanges ::
  "'g env \<Rightarrow> world \<Rightarrow> image \<Rightarrow> image \<Rightarrow> coords \<Rightarrow> detection \<times> world" where
  "detectChanges env w beforeImage afterImage center =
     (case detectChangesWithUNet env w beforeImage afterImage of
        (Inl e, w1) \<Rightarrow> fallbackDetection env w1 beforeImage afterImage center
      | (Inr cm, w1) \<Rightarrow>
          if length (cm_regions cm) = 0
          then (\<lparr>hasChange = False, d_confidence = 0.95, changes = [],
                  analysisDate = toISOString env (now env),
                  d_method = ''UNet + Mask R-CNN'',
                  changeRegions = None, buildingsDetected = None\<rparr>, w1)
          else
            (case detectBuildingsWithMaskRCNN env w1 afterImage (cm_regions cm) of
               (Inl e, w2) \<Rightarrow> fallbackDetection env w2 beforeImage afterImage center
             | (Inr buildings, w2) \<Rightarrow>
                 (\<lparr>hasChange = True,
                   d_confidence = foldl max 0 (cm_confidence cm),
                   changes = map (building_change env beforeImage afterImage center)
                               (enumerate 0 buildings),
                   analysisDate = toISOString env (now env),
                   d_method = ''UNet + Mask R-CNN'',
                   changeRegions = Some (length (cm_regions cm)),
                   buildingsDetected = Some (length buildings)\<rparr>, w2)))"


subsection \<open>analyzeSite\<close>









section \<open>The specification's notions\<close>

subsection \<open>Risk score\<close>

text \<open>The weights and the level thresholds as the specification gives them.\<close>

definition weight :: "string \<Rightarrow> int" where
  "weight sev = (if sev = ''HIGH'' then 10 else if sev = ''MEDIUM'' then 5 else 2)"

definition level_of_score :: "int \<Rightarrow> string" where
  "level_of_score s = (if s \<ge> 10 then ''HIGH'' else if s \<ge> 5 then ''MEDIUM'' else ''LOW'')"

subsection \<open>Layers and their contributions\<close>



definition first_hit :: "('a \<Rightarrow> bool) \<Rightarrow> ('a \<Rightarrow> violation) \<Rightarrow> 'a list \<Rightarrow> violation list" where
  "first_hit P mk fs = (case find P fs of None \<Rightarrow> [] | Some f \<Rightarrow> [mk f])"




subsection \<open>District rules\<close>

text \<open>
  The five rectangles of \<open>getDistrict\<close> as a list of rules in the order of the source,
  and the lookup that takes the first rule containing the point.
\<close>

record district_rule =
  label :: string
  south :: real
  north :: real
  west :: real
  east :: real

definition district_rules :: "district_rule list" where
  "district_rules =
     [\<lparr>label = ''Hyderabad'', south = 17.3, north = 17.5, west = 78.4, east = 78.6\<rparr>,
      \<lparr>label = ''Medchal'', south = 17.5, north = 18.0, west = 78.4, east = 78.8\<rparr>,
      \<lparr>label = ''Sangareddy'', south = 17.6, north = 18.0, west = 77.8, east = 78.2\<rparr>,
      \<lparr>label = ''Vikarabad'', south = 17.2, north = 17.8, west = 77.5, east = 78.2\<rparr>,
      \<lparr>label = ''Rangareddy'', south = 17.2, north = 17.6, west = 78.2, east = 78.8\<rparr>]"

definition in_rule :: "district_rule \<Rightarrow> real \<Rightarrow> real \<Rightarrow> bool" where
  "in_rule r lat lng = (lat \<ge> south r \<and> lat \<le> north r \<and> lng \<ge> west r \<and> lng \<le> east r)"

definition first_rule :: "district_rule list \<Rightarrow> real \<Rightarrow> real \<Rightarrow> string" where
  "first_rule rules lat lng =
     (case find (\<lambda>r. in_rule r lat lng) rules of None \<Rightarrow> ''Unknown'' | Some r \<Rightarrow> label r)"

subsection \<open>Invariants of extracted regions\<close>

text \<open>
  A pixel lies in a bounding box. \<open>region_inv\<close> is what the flood fill maintains of the
  region it grows, given the visited set: the entries after the first are distinct and
  visited. \<open>region_ok\<close> is what holds of a region that was kept, and \<open>region_final\<close>
  adds that its first two entries are the same pixel.
\<close>

definition in_bbox :: "region_bbox \<Rightarrow> int \<times> int \<Rightarrow> bool" where
  "in_bbox bb p = (rx bb \<le> fst p \<and> fst p \<le> rx2 bb \<and> ry bb \<le> snd p \<and> snd p \<le> ry2 bb)"

definition region_inv :: "int \<Rightarrow> int set \<Rightarrow> region \<Rightarrow> bool" where
  "region_inv width visited r =
     (pixels r \<noteq> [] \<and> length (pixels r) \<le> 1000
      \<and> list_all (in_bbox (bbox r)) (pixels r)
      \<and> distinct (tl (pixels r))
      \<and> list_all (\<lambda>p. snd p * width + fst p \<in> visited) (tl (pixels r)))"

definition region_ok :: "region \<Rightarrow> bool" where
  "region_ok r =
     (pixels r \<noteq> [] \<and> 10 \<le> length (pixels r) \<and> length (pixels r) \<le> 1000
      \<and> list_all (in_bbox (bbox r)) (pixels r)
      \<and> distinct (tl (pixels r)))"

definition region_final :: "region \<Rightarrow> bool" where
  "region_final r = (region_ok r \<and> pixels r ! 0 = pixels r ! 1)"

section \<open>Decimal numerals and \<open>parseFloat\<close>\<close>

text \<open>
  Reading a string of decimal digits as a number: the converse of the rendering of an
  integer, stated on its own. The value of a digit is its place in \<open>0123456789\<close>.
\<close>

definition is_digit :: "char \<Rightarrow> bool" where
  "is_digit c = (c \<in> set ''0123456789'')"








section \<open>Concrete collaborators and inputs\<close>

text \<open>
  A one-dimensional stand-in for the turf library: a geometry is an interval of
  longitudes, a point is inside when its longitude is, the buffer widens the interval and
  the distance is taken to the interval's left end.
\<close>

definition interval_turf :: "(real \<times> real) turf" where
  "interval_turf =
     \<lparr>booleanPointInPolygon = (\<lambda>p f. fst (geometry f) \<le> fst p \<and> fst p \<le> snd (geometry f)),
      buffer = (\<lambda>f r. f\<lparr>geometry := (fst (geometry f) - r, snd (geometry f) + r)\<rparr>),
      pointToLineDistance = (\<lambda>p f. \<bar>fst p - fst (geometry f)\<bar>)\<rparr>"

text \<open>
  Layers with two waterbodies around longitude 5, the other layers missing, without
  feature list, empty or far away; and layers whose second channel is at longitude \<open>x\<close>.
\<close>

definition lake_layers :: "(real \<times> real) gis_layers" where
  "lake_layers =
     \<lparr>waterbodies = Some \<lparr>features = Some [\<lparr>name = Some ''Lake A'', geometry = (0, 10)\<rparr>,
                                             \<lparr>name = None, geometry = (4, 6)\<rparr>]\<rparr>,
      waterways = None,
      vulnerableLocalities = Some \<lparr>features = None\<rparr>,
      greenCover = Some \<lparr>features = Some []\<rparr>,
      channels = Some \<lparr>features = Some [\<lparr>name = None, geometry = (500, 600)\<rparr>]\<rparr>,
      contours = None\<rparr>"


text \<open>
  An environment around given results of the two model runs and a given random sequence;
  its clock stands at 0 and a time is rendered as its number.
\<close>

definition demo_image :: image where
  "demo_image = \<lparr>url = ''https://tiles.example/site.png'', date = ''2006-06-15'',
                  year = Some 2006, yearsBack = Some 20\<rparr>"

definition demo_parse :: "string \<Rightarrow> real option" where
  "demo_parse s = (if s = ''17.4'' then Some 17.4 else if s = ''78.5'' then Some 78.5
                   else if s = ''12'' then Some 12 else None)"

definition demo_env ::
  "js_error + prediction \<Rightarrow> js_error + predictions \<times> real \<times> real \<Rightarrow> (nat \<Rightarrow> real)
     \<Rightarrow> (real \<times> real) env" where
  "demo_env U M R =
     \<lparr>turf_lib = interval_turf, loadGISLayers = lake_layers,
      getHistoricalImagery = (\<lambda>la lo. demo_image),
      getCurrentImagery = (\<lambda>la lo. demo_image),
      unet_predict = (\<lambda>b a. U), maskrcnn_predict = (\<lambda>i. M),
      random = R, now = 0, toISOString = js_int_to_string, parseFloat = demo_parse\<rparr>"

definition world0 :: world where
  "world0 = \<lparr>draws = 0, events = [], stored = []\<rparr>"

text \<open>
  Predictions of the building model: one detection, a box of 400 by 400 pixels; and five
  candidates, boxes of 20 by 8 and of 4 by 5 pixels and a box of no extent at pixel
  (8, 0), a box far from the others, and a candidate whose score is below the threshold.
\<close>

definition one_box :: raw_detections where
  "one_box = \<lparr>boxes = [(0, 0, 1 / 2, 1 / 2)], scores = [9 / 10], classes = [1]\<rparr>"

definition five_boxes :: raw_detections where
  "five_boxes =
     \<lparr>boxes = [(0, 0, 1 / 40, 1 / 100), (0, 0, 1 / 200, 1 / 160), (1 / 100, 0, 1 / 100, 0),
               (1 / 2, 1 / 2, 5 / 8, 5 / 8), (0, 0, 1 / 40, 1 / 100)],
      scores = [9 / 10, 8 / 10, 9 / 10, 9 / 10, 3 / 10],
      classes = [1, 2, 3, 1, 1]\<rparr>"

text \<open>
  Outputs of the change model: one below the threshold everywhere, and one of five rows
  of 36 pixels above it, whose only region is \<open>block_region\<close>. \<open>strip_region\<close> is the
  only region of a mask of one such row.
\<close>

definition low_prediction :: prediction where
  "low_prediction = \<lparr>pdata = Some [1 / 10, 2 / 10, 3 / 10, 4 / 10], pshape = [1, 2, 2, 1]\<rparr>"

definition block_prediction :: prediction where
  "block_prediction = \<lparr>pdata = Some (replicate 180 (9 / 10)), pshape = [1, 5, 36, 1]\<rparr>"

definition block_region :: region where
  "block_region =
     \<lparr>rid = 0,
      pixels = [(0, 0), (0, 0), (0, 4), (4, 4), (4, 0), (8, 0), (8, 4), (12, 4),
                (12, 0), (16, 0), (16, 4), (20, 4), (20, 0), (24, 0), (24, 4),
                (28, 4), (28, 0), (32, 0), (32, 4)],
      bbox = \<lparr>rx = 0, ry = 0, rx2 = 32, ry2 = 4\<rparr>\<rparr>"

definition strip_region :: region where
  "strip_region =
     \<lparr>rid = 0,
      pixels = [(0, 0), (0, 0), (4, 0), (8, 0), (12, 0), (16, 0), (20, 0), (24, 0), (28, 0), (32, 0)],
      bbox = \<lparr>rx = 0, ry = 0, rx2 = 32, ry2 = 0\<rparr>\<rparr>"

text \<open>
  An environment whose change-model run throws, one whose runs give the block and the
  five candidates, and the latter with the model of \<open>parseFloat\<close>.
\<close>

definition failing_env :: "(nat \<Rightarrow> real) \<Rightarrow> (real \<times> real) env" where
  "failing_env R = demo_env (Inl (Error ''model failed'')) (Inr (TensorArray one_box, 800, 800)) R"

definition block_env :: "(real \<times> real) env" where
  "block_env = demo_env (Inr block_prediction) (Inr (TensorArray five_boxes, 800, 800)) (\<lambda>k. 0)"


section \<open>Properties of gisService\<close>

lemma fold_add_weight: "fold add_weight vs s = s + (\<Sum>v\<leftarrow>vs. weight (severity v))"
  by (induction vs arbitrary: s) (simp_all add: add_weight_def weight_def)

text \<open>
  Claim C1. For every violation list the risk scorer returns as score the sum of the
  weights of the severities (HIGH 10, MEDIUM 5, anything else 2) and as level HIGH from
  score 10, MEDIUM from 5 to below 10, LOW below 5; the empty list gives LOW with score
  0, one HIGH violation gives HIGH with score 10, one MEDIUM and one LOW give score 7 and
  level MEDIUM.
\<close>

theorem calculateRiskLevel_sum:
  "calculateRiskLevel vs =
     \<lparr>level = level_of_score (\<Sum>v\<leftarrow>vs. weight (severity v)),
      score = (\<Sum>v\<leftarrow>vs. weight (severity v))\<rparr>
   \<and> calculateRiskLevel [] = \<lparr>level = ''LOW'', score = 0\<rparr>
   \<and> calculateRiskLevel [h\<lparr>severity := ''HIGH''\<rparr>] = \<lparr>level = ''HIGH'', score = 10\<rparr>
   \<and> calculateRiskLevel [m\<lparr>severity := ''MEDIUM''\<rparr>, l\<lparr>severity := ''LOW''\<rparr>]
       = \<lparr>level = ''MEDIUM'', score = 7\<rparr>"
proof -
  have gen: "calculateRiskLevel ws =
     \<lparr>level = level_of_score (\<Sum>v\<leftarrow>ws. weight (severity v)),
      score = (\<Sum>v\<leftarrow>ws. weight (severity v))\<rparr>" for ws
  proof (cases "ws = []")
    case True
    then show ?thesis
      by (simp add: calculateRiskLevel_def level_of_score_def)
  next
    case False
    have "fold add_weight ws 0 = (\<Sum>v\<leftarrow>ws. weight (severity v))"
      by (simp add: fold_add_weight)
    with False show ?thesis
      by (simp add: calculateRiskLevel_def Let_def level_of_score_def)
  qed
  show ?thesis
    by (simp add: gen) (simp add: level_of_score_def weight_def)
qed

















lemma first_hit_Nil [simp]: "first_hit P mk [] = []"
  by (simp add: first_hit_def)
















lemma first_rule_Nil: "first_rule [] lat lng = ''Unknown''"
  by (simp add: first_rule_def)

lemma first_rule_Cons:
  "first_rule (r # rs) lat lng = (if in_rule r lat lng then label r else first_rule rs lat lng)"
  by (simp add: first_rule_def)

lemma in_rule_make:
  "in_rule \<lparr>label = l, south = s, north = n, west = w, east = e\<rparr> lat lng
     = (lat \<ge> s \<and> lat \<le> n \<and> lng \<ge> w \<and> lng \<le> e)"
  by (simp add: in_rule_def)

lemma getDistrict_first_rule: "getDistrict lat lng = first_rule district_rules lat lng"
  unfolding getDistrict_def district_rules_def first_rule_Cons first_rule_Nil in_rule_make
  by (simp only: district_rule.select_convs)

text \<open>
  Claim C9, as stated, says that no point lies in two district rectangles, so that the
  order of the rules does not matter. The point (17.4, 78.5) lies in the rectangle of
  Hyderabad and in that of Rangareddy; the lookup answers Hyderabad, and would answer
  Rangareddy with the rules in the reverse order.
\<close>

theorem district_rules_overlap:
  "in_rule (district_rules ! 0) 17.4 78.5 \<and> in_rule (district_rules ! 4) 17.4 78.5
   \<and> label (district_rules ! 0) \<noteq> label (district_rules ! 4)
   \<and> getDistrict 17.4 78.5 = ''Hyderabad''
   \<and> first_rule (rev district_rules) 17.4 78.5 = ''Rangareddy''"
proof (intro conjI)
  show "in_rule (district_rules ! 0) 17.4 78.5"
    by (simp add: district_rules_def in_rule_def)
  show "in_rule (district_rules ! 4) 17.4 78.5"
    by (simp add: district_rules_def in_rule_def)
  show "label (district_rules ! 0) \<noteq> label (district_rules ! 4)"
    by (simp add: district_rules_def)
  show "getDistrict 17.4 78.5 = ''Hyderabad''"
    by (simp add: getDistrict_def)
  show "first_rule (rev district_rules) 17.4 78.5 = ''Rangareddy''"
    by (simp add: district_rules_def first_rule_Cons first_rule_Nil in_rule_make)
qed

lemma find_unique:
  assumes "r \<in> set rs" "P r" "\<forall>r'\<in>set rs. P r' \<longrightarrow> r' = r"
  shows "find P rs = Some r"
proof (cases "find P rs")
  case None
  then have "\<not> (\<exists>x. x \<in> set rs \<and> P x)"
    by (simp add: find_None_iff)
  with assms(1,2) show ?thesis by blast
next
  case (Some q)
  then have "q \<in> set rs \<and> P q"
    by (auto simp: find_Some_iff)
  with assms(3) have "q = r" by blast
  with Some show ?thesis by simp
qed

lemma find_none: "\<forall>r\<in>set rs. \<not> P r \<Longrightarrow> find P rs = None"
  by (simp add: find_None_iff)

text \<open>
  Claim C9, amended. The district lookup returns the label of the first rule, in the
  order of the source, whose rectangle contains the point. For a point inside exactly one
  rectangle that is this rectangle's label, and for a point outside all rectangles it is
  "Unknown".
\<close>

theorem getDistrict_first_match:
  "getDistrict lat lng = first_rule district_rules lat lng
   \<and> (\<forall>r\<in>set district_rules.
        in_rule r lat lng \<and> (\<forall>r'\<in>set district_rules. in_rule r' lat lng \<longrightarrow> r' = r)
        \<longrightarrow> getDistrict lat lng = label r)
   \<and> ((\<forall>r\<in>set district_rules. \<not> in_rule r lat lng) \<longrightarrow> getDistrict lat lng = ''Unknown'')"
proof -
  have one: "getDistrict lat lng = label r"
    if "r \<in> set district_rules" "in_rule r lat lng"
       "\<forall>r'\<in>set district_rules. in_rule r' lat lng \<longrightarrow> r' = r" for r
    using find_unique [of r district_rules "\<lambda>r. in_rule r lat lng", OF that]
    by (simp add: getDistrict_first_rule first_rule_def)
  have none: "getDistrict lat lng = ''Unknown''" if "\<forall>r\<in>set district_rules. \<not> in_rule r lat lng"
    using find_none [of district_rules "\<lambda>r. in_rule r lat lng", OF that]
    by (simp add: getDistrict_first_rule first_rule_def)
  show ?thesis
    using one none getDistrict_first_rule by blast
qed

theorem getDistrict_first_match_witness:
  "filter (\<lambda>r. in_rule r 17.9 78) district_rules = [district_rules ! 2]
   \<and> getDistrict 17.9 78 = ''Sangareddy''
   \<and> filter (\<lambda>r. in_rule r 10 10) district_rules = []
   \<and> getDistrict 10 10 = ''Unknown''"
proof -
  have a: "district_rules ! 2 \<in> set district_rules"
    by (simp add: district_rules_def)
  have f: "filter (\<lambda>r. in_rule r 17.9 78) district_rules = [district_rules ! 2]"
    by (simp add: district_rules_def in_rule_def)
  have g: "filter (\<lambda>r. in_rule r 10 10) district_rules = []"
    by (simp add: district_rules_def in_rule_def)
  have "set (filter (\<lambda>r. in_rule r 17.9 78) district_rules) = {district_rules ! 2}"
    by (simp only: f list.set)
  then have b: "in_rule (district_rules ! 2) 17.9 78
     \<and> (\<forall>r'\<in>set district_rules. in_rule r' 17.9 78 \<longrightarrow> r' = district_rules ! 2)"
    by auto
  have "set (filter (\<lambda>r. in_rule r 10 10) district_rules) = {}"
    by (simp only: g list.set)
  then have c: "\<forall>r\<in>set district_rules. \<not> in_rule r 10 10"
    by auto
  have l: "label (district_rules ! 2) = ''Sangareddy''"
    by (simp add: district_rules_def)
  from getDistrict_first_match [of "17.9" 78] a b have "getDistrict 17.9 78 = label (district_rules ! 2)"
    by blast
  moreover from getDistrict_first_match [of 10 10] c have "getDistrict 10 10 = ''Unknown''"
    by blast
  ultimately show ?thesis using f g l by simp
qed

section \<open>Properties of mlModelService\<close>

lemma filterBuildings_exact:
  "filterBuildingsInChangeRegions buildings regions =
     filter (\<lambda>b. \<exists>r\<in>set regions.
        of_int (rx (bbox r)) \<le> box_x (b_bbox b) + box_width (b_bbox b) / 2 \<and>
        box_x (b_bbox b) + box_width (b_bbox b) / 2 \<le> of_int (rx2 (bbox r)) \<and>
        of_int (ry (bbox r)) \<le> box_y (b_bbox b) + box_height (b_bbox b) / 2 \<and>
        box_y (b_bbox b) + box_height (b_bbox b) / 2 \<le> of_int (ry2 (bbox r))) buildings"
  by (simp add: filterBuildingsInChangeRegions_def center_in_region_def list_ex_iff Let_def)

lemma detectBuildings_filtered:
  assumes "maskrcnn_predict env img = Inr (preds, iw, ih)" and "regions \<noteq> []"
  shows "fst (detectBuildingsWithMaskRCNN env w img regions) =
           Inr (filterBuildingsInChangeRegions (postprocessMaskRCNN preds iw ih) regions)"
  using assms by (simp add: detectBuildingsWithMaskRCNN_def Let_def)

lemma post_one_box:
  "postprocessMaskRCNN (TensorArray one_box) 800 800 =
     [\<lparr>b_id = ''building_0'',
       b_bbox = \<lparr>box_x = 0, box_y = 0, box_width = 400, box_height = 400\<rparr>,
       b_confidence = 9 / 10, b_class = Some 1\<rparr>]"
  by (simp add: postprocessMaskRCNN_def one_box_def detection_at_def js_index_def
        js_int_to_string_def string_of_nat.simps digit_char_def)

text \<open>
  Claim C7. With regions the stage returns exactly the detections whose box centre lies in
  some region's bounding box (\<open>detectBuildings_filtered\<close> with \<open>filterBuildings_exact\<close>).
  Without regions the claim has all detections returned; the code disposes its tensors
  first and calls \<open>dispose\<close> on the predictions, which an array of tensors does not
  have. On predictions that hold one detection the stage, run without regions, ends in
  the \<open>TypeError\<close> instead of returning the detection.
\<close>

theorem detectBuildings_no_regions_throws:
  "postprocessMaskRCNN (TensorArray one_box) 800 800 =
     [\<lparr>b_id = ''building_0'',
       b_bbox = \<lparr>box_x = 0, box_y = 0, box_width = 400, box_height = 400\<rparr>,
       b_confidence = 9 / 10, b_class = Some 1\<rparr>]
   \<and> detectBuildingsWithMaskRCNN
        (demo_env (Inl (Error ''unused'')) (Inr (TensorArray one_box, 800, 800)) (\<lambda>k. 0))
        world0 demo_image []
      = (Inl (TypeError ''predictions.dispose is not a function''),
         world0\<lparr>events := [MaskRCNNInference]\<rparr>)"
  by (simp add: post_one_box)
     (simp add: detectBuildingsWithMaskRCNN_def Let_def demo_env_def world0_def)

subsection \<open>Region extraction\<close>

lemma in_bbox_grow:
  "in_bbox bb p \<Longrightarrow>
   in_bbox \<lparr>rx = min (rx bb) x, ry = min (ry bb) y, rx2 = max (rx2 bb) x, ry2 = max (ry2 bb) y\<rparr> p"
  by (auto simp: in_bbox_def)

lemma in_bbox_new:
  "in_bbox \<lparr>rx = min (rx bb) x, ry = min (ry bb) y, rx2 = max (rx2 bb) x, ry2 = max (ry2 bb) y\<rparr> (x, y)"
  by (auto simp: in_bbox_def)

lemma add_pixel_inv:
  assumes inv: "region_inv width visited r"
    and room: "length (pixels r) < 1000"
    and fresh: "y * width + x \<notin> visited"
  shows "region_inv width (insert (y * width + x) visited) (add_pixel r x y)"
proof -
  from inv have ne: "pixels r \<noteq> []"
    and box: "list_all (in_bbox (bbox r)) (pixels r)"
    and dist: "distinct (tl (pixels r))"
    and vis: "list_all (\<lambda>p. snd p * width + fst p \<in> visited) (tl (pixels r))"
    by (simp_all add: region_inv_def)
  have tl_eq: "tl (pixels r @ [(x, y)]) = tl (pixels r) @ [(x, y)]"
    using ne by simp
  have notin: "(x, y) \<notin> set (tl (pixels r))"
  proof
    assume "(x, y) \<in> set (tl (pixels r))"
    with vis have "snd (x, y) * width + fst (x, y) \<in> visited"
      unfolding list_all_iff by blast
    with fresh show False by simp
  qed
  have box': "list_all (in_bbox (bbox (add_pixel r x y))) (pixels r)"
    using box by (simp add: add_pixel_def list_all_iff in_bbox_grow)
  have vis': "list_all (\<lambda>p. snd p * width + fst p \<in> insert (y * width + x) visited) (tl (pixels r))"
    using vis by (simp add: list_all_iff)
  show ?thesis
    unfolding region_inv_def
    using room dist notin box' vis'
    by (simp add: add_pixel_def tl_eq in_bbox_new)
qed

lemma floodFill_loop_inv:
  "region_inv width visited region \<Longrightarrow>
   region_inv width (fst (floodFill_loop maskData width height sampleRate stack visited region))
     (snd (floodFill_loop maskData width height sampleRate stack visited region))"
proof (induction maskData width height sampleRate stack visited region
    rule: floodFill_loop.induct)
  case (1 maskData width height sampleRate stack visited region)
  show ?case
  proof (cases stack)
    case Nil
    with "1.prems" show ?thesis
      by (simp add: floodFill_loop.simps)
  next
    case (Cons p rest)
    obtain x y where p: "p = (x, y)"
      by (cases p)
    show ?thesis
    proof (cases "length (pixels region) < 1000")
      case False
      with "1.prems" Cons p show ?thesis
        by (simp add: floodFill_loop.simps)
    next
      case room: True
      let ?idx = "y * width + x"
      let ?skip = "x < 0 \<or> x \<ge> width \<or> y < 0 \<or> y \<ge> height \<or> ?idx \<ge> int (length maskData)
                \<or> ?idx \<in> visited \<or> below_half (js_index maskData ?idx)"
      show ?thesis
      proof (cases ?skip)
        case True
        have "floodFill_loop maskData width height sampleRate stack visited region
            = floodFill_loop maskData width height sampleRate rest visited region"
          using Cons p room True by (subst floodFill_loop.simps) (simp add: Let_def)
        moreover have "region_inv width
            (fst (floodFill_loop maskData width height sampleRate rest visited region))
            (snd (floodFill_loop maskData width height sampleRate rest visited region))"
          using "1.IH"(1) [OF Cons p [symmetric] _ refl True "1.prems"] room by simp
        ultimately show ?thesis by simp
      next
        case False
        then have fresh: "?idx \<notin> visited"
          by simp
        have "floodFill_loop maskData width height sampleRate stack visited region
            = floodFill_loop maskData width height sampleRate (neighbours sampleRate x y @ rest)
                (insert ?idx visited) (add_pixel region x y)"
          using Cons p room False by (subst floodFill_loop.simps) (simp add: Let_def)
        moreover have "region_inv width
            (fst (floodFill_loop maskData width height sampleRate (neighbours sampleRate x y @ rest)
                (insert ?idx visited) (add_pixel region x y)))
            (snd (floodFill_loop maskData width height sampleRate (neighbours sampleRate x y @ rest)
                (insert ?idx visited) (add_pixel region x y)))"
          using "1.IH"(2) [OF Cons p [symmetric] _ refl False
              add_pixel_inv [OF "1.prems" room fresh]] room by simp
        ultimately show ?thesis by simp
      qed
    qed
  qed
qed

lemma floodFill_loop_appends:
  "\<exists>ext. pixels (snd (floodFill_loop maskData width height sampleRate stack visited region))
           = pixels region @ ext"
proof (induction maskData width height sampleRate stack visited region
    rule: floodFill_loop.induct)
  case (1 maskData width height sampleRate stack visited region)
  show ?case
  proof (cases stack)
    case Nil
    then show ?thesis
      by (simp add: floodFill_loop.simps)
  next
    case (Cons p rest)
    obtain x y where p: "p = (x, y)"
      by (cases p)
    show ?thesis
    proof (cases "length (pixels region) < 1000")
      case False
      with Cons p show ?thesis
        by (simp add: floodFill_loop.simps)
    next
      case room: True
      let ?idx = "y * width + x"
      let ?skip = "x < 0 \<or> x \<ge> width \<or> y < 0 \<or> y \<ge> height \<or> ?idx \<ge> int (length maskData)
                \<or> ?idx \<in> visited \<or> below_half (js_index maskData ?idx)"
      show ?thesis
      proof (cases ?skip)
        case True
        have "floodFill_loop maskData width height sampleRate stack visited region
            = floodFill_loop maskData width height sampleRate rest visited region"
          using Cons p room True by (subst floodFill_loop.simps) (simp add: Let_def)
        with "1.IH"(1) [OF Cons p [symmetric] _ refl True] room show ?thesis
          by simp
      next
        case False
        have "floodFill_loop maskData width height sampleRate stack visited region
            = floodFill_loop maskData width height sampleRate (neighbours sampleRate x y @ rest)
                (insert ?idx visited) (add_pixel region x y)"
          using Cons p room False by (subst floodFill_loop.simps) (simp add: Let_def)
        moreover from "1.IH"(2) [OF Cons p [symmetric] _ refl False] room
        obtain ext where "pixels (snd (floodFill_loop maskData width height sampleRate
              (neighbours sampleRate x y @ rest) (insert ?idx visited) (add_pixel region x y)))
            = pixels (add_pixel region x y) @ ext"
          by auto
        ultimately show ?thesis
          by (simp add: add_pixel_def)
      qed
    qed
  qed
qed

lemma above_not_below: "above_half v \<Longrightarrow> \<not> below_half v"
  by (cases v) (auto simp: above_half_def below_half_def)

lemma floodFill_seed:
  assumes range: "0 \<le> x" "x < width" "0 \<le> y" "y < height"
    and seed: "y * width + x < int (length maskData)"
      "above_half (js_index maskData (y * width + x))" "y * width + x \<notin> visited"
  shows "\<exists>ext. pixels (snd (floodFill maskData visited x y width height
            \<lparr>rid = n, pixels = [(x, y)], bbox = \<lparr>rx = x, ry = y, rx2 = x, ry2 = y\<rparr>\<rparr> sampleRate))
          = (x, y) # (x, y) # ext"
proof -
  let ?r0 = "\<lparr>rid = n, pixels = [(x, y)], bbox = \<lparr>rx = x, ry = y, rx2 = x, ry2 = y\<rparr>\<rparr>"
  have step: "floodFill maskData visited x y width height ?r0 sampleRate
      = floodFill_loop maskData width height sampleRate (neighbours sampleRate x y @ [])
          (insert (y * width + x) visited) (add_pixel ?r0 x y)"
    unfolding floodFill_def
    using range seed above_not_below [OF seed(2)]
    by (subst floodFill_loop.simps) (simp add: Let_def)
  from floodFill_loop_appends [of maskData width height sampleRate "neighbours sampleRate x y @ []"
      "insert (y * width + x) visited" "add_pixel ?r0 x y"]
  obtain ext where "pixels (snd (floodFill_loop maskData width height sampleRate
        (neighbours sampleRate x y @ []) (insert (y * width + x) visited) (add_pixel ?r0 x y)))
      = pixels (add_pixel ?r0 x y) @ ext"
    by blast
  then show ?thesis
    unfolding step by (simp add: add_pixel_def)
qed

lemma scan_sample_final:
  assumes range: "0 \<le> x" "x < width" "0 \<le> y" "y < height"
    and regs: "list_all region_final (snd st)"
  shows "list_all region_final (snd (scan_sample maskData width height y x st))"
proof (cases "y * width + x < int (length maskData)
     \<and> above_half (js_index maskData (y * width + x)) \<and> y * width + x \<notin> fst st")
  case False
  then have "scan_sample maskData width height y x st = st"
    by (auto simp: scan_sample_def Let_def)
  with regs show ?thesis by simp
next
  case True
  let ?r0 = "\<lparr>rid = length (snd st), pixels = [(x, y)],
               bbox = \<lparr>rx = x, ry = y, rx2 = x, ry2 = y\<rparr>\<rparr>"
  let ?filled = "floodFill maskData (fst st) x y width height ?r0 4"
  have inv0: "region_inv width (fst st) ?r0"
    by (simp add: region_inv_def in_bbox_def)
  have inv: "region_inv width (fst ?filled) (snd ?filled)"
    unfolding floodFill_def by (rule floodFill_loop_inv [OF inv0])
  from floodFill_seed [OF range, of maskData "fst st" "length (snd st)" 4] True
  obtain ext where ext: "pixels (snd ?filled) = (x, y) # (x, y) # ext"
    by blast
  have fin: "region_final (snd ?filled)" if "10 \<le> length (pixels (snd ?filled))"
    using inv that ext by (simp add: region_final_def region_ok_def region_inv_def)
  have res: "snd (scan_sample maskData width height y x st) =
      (if 10 \<le> length (pixels (snd ?filled)) then snd st @ [snd ?filled] else snd st)"
    using True by (simp add: scan_sample_def Let_def)
  show ?thesis
    unfolding res using regs fin by simp
qed

lemma scan_row_final:
  "0 \<le> x \<Longrightarrow> 0 \<le> y \<Longrightarrow> y < height \<Longrightarrow> list_all region_final (snd st) \<Longrightarrow>
   list_all region_final (snd (scan_row maskData width height y x st))"
proof (induction maskData width height y x st rule: scan_row.induct)
  case (1 maskData width height y x st)
  show ?case
  proof (cases "x < width")
    case True
    have "list_all region_final (snd (scan_sample maskData width height y x st))"
      using "1.prems" True by (intro scan_sample_final) simp_all
    with "1.IH" [OF True] "1.prems" True show ?thesis
      by (subst scan_row.simps) simp
  next
    case False
    with "1.prems" show ?thesis
      by (subst scan_row.simps) simp
  qed
qed

lemma scan_rows_final:
  "0 \<le> y \<Longrightarrow> list_all region_final (snd st) \<Longrightarrow>
   list_all region_final (snd (scan_rows maskData width height y st))"
proof (induction maskData width height y st rule: scan_rows.induct)
  case (1 maskData width height y st)
  show ?case
  proof (cases "y < height")
    case True
    have "list_all region_final (snd (scan_row maskData width height y 0 st))"
      using "1.prems" True by (intro scan_row_final) simp_all
    with "1.IH" [OF True] "1.prems" True show ?thesis
      by (subst scan_rows.simps) simp
  next
    case False
    with "1.prems" show ?thesis
      by (subst scan_rows.simps) simp
  qed
qed

lemma findChangeRegions_final:
  "length (findChangeRegions maskData width height) \<le> 20
   \<and> list_all region_final (findChangeRegions maskData width height)"
proof -
  have "list_all region_final (snd (scan_rows maskData width height 0 ({}, [])))"
    by (rule scan_rows_final) simp_all
  then have "list_all region_final (take 20 (snd (scan_rows maskData width height 0 ({}, []))))"
    unfolding list_all_iff using in_set_takeD by fast
  then show ?thesis
    by (simp add: findChangeRegions_def)
qed

lemma findChangeRegions_never_distinct:
  "r \<in> set (findChangeRegions maskData width height) \<Longrightarrow> \<not> distinct (pixels r)"
proof -
  assume "r \<in> set (findChangeRegions maskData width height)"
  with findChangeRegions_final [of maskData width height] have f: "region_final r"
    by (simp add: list_all_iff)
  then have len: "10 \<le> length (pixels r)" and same: "pixels r ! 0 = pixels r ! 1"
    by (simp_all add: region_final_def region_ok_def)
  show ?thesis
  proof
    assume "distinct (pixels r)"
    moreover have "0 < length (pixels r)" "1 < length (pixels r)"
      using len by linarith+
    ultimately have "(pixels r ! 0 = pixels r ! 1) = ((0::nat) = 1)"
      by (rule nth_eq_iff_index_eq)
    with same show False by simp
  qed
qed

lemma strip_fill:
  "floodFill (replicate 36 1) {} 0 0 36 1
     \<lparr>rid = 0, pixels = [(0, 0)], bbox = \<lparr>rx = 0, ry = 0, rx2 = 0, ry2 = 0\<rparr>\<rparr> 4
   = ({0, 4, 8, 12, 16, 20, 24, 28, 32},
      \<lparr>rid = 0,
       pixels = [(0, 0), (0, 0), (4, 0), (8, 0), (12, 0), (16, 0), (20, 0), (24, 0), (28, 0), (32, 0)],
       bbox = \<lparr>rx = 0, ry = 0, rx2 = 32, ry2 = 0\<rparr>\<rparr>)"
  by (simp add: floodFill_def floodFill_loop.simps neighbours_def add_pixel_def
        below_half_def js_index_def Let_def insert_commute)

lemma strip_regions: "findChangeRegions (replicate 36 1) 36 1 = [strip_region]"
  by (simp add: findChangeRegions_def scan_rows.simps scan_row.simps scan_sample_def
        strip_fill above_half_def js_index_def Let_def strip_region_def)

text \<open>
  Claim C6 has the pixel entries of a region distinct. A region starts with its seed
  pixel as first entry and the flood fill, which begins at the seed and finds it
  unvisited, appends it again. On a mask of one row of 36 changed pixels the extractor
  returns one region of ten entries, the seed twice, over nine distinct samples. The
  rest of the claim holds on every mask (\<open>findChangeRegions_final\<close>): at most twenty
  regions, each with 10 to 1000 entries that lie in its bounding box and are distinct
  after the first; and no returned region has distinct entries
  (\<open>findChangeRegions_never_distinct\<close>).
\<close>

theorem seed_pixel_listed_twice:
  "findChangeRegions (replicate 36 1) 36 1 = [strip_region]
   \<and> \<not> distinct (pixels strip_region)
   \<and> length (pixels strip_region) = 10
   \<and> card (set (pixels strip_region)) = 9"
  by (simp add: strip_regions) (simp add: strip_region_def)

section \<open>Properties of changeDetectionService\<close>

lemma binary_mask_low:
  "\<forall>v\<in>set d. v \<le> 0.5 \<Longrightarrow> binary_mask d = replicate (length d) 0"
  by (induction d) (simp_all add: binary_mask_def)

lemma above_half_zero: "\<not> above_half (js_index (replicate n 0) i)"
proof (cases "0 \<le> i \<and> i < int n")
  case True
  then have "nat i < n" by linarith
  then have "replicate n (0::real) ! nat i = 0" by simp
  with True show ?thesis by (simp add: above_half_def js_index_def)
next
  case False
  then show ?thesis by (auto simp: above_half_def js_index_def)
qed

lemma scan_sample_zero: "scan_sample (replicate n 0) width height y x st = st"
  by (simp add: scan_sample_def Let_def above_half_zero)

lemma scan_row_zero: "scan_row (replicate n 0) width height y x st = st"
  by (induction "replicate n (0::real)" width height y x st rule: scan_row.induct)
     (simp add: scan_row.simps scan_sample_zero)

lemma scan_rows_zero: "scan_rows (replicate n 0) width height y st = st"
  by (induction "replicate n (0::real)" width height y st rule: scan_rows.induct)
     (simp add: scan_rows.simps scan_row_zero)

lemma findChangeRegions_zero: "findChangeRegions (replicate n 0) width height = []"
  by (simp add: findChangeRegions_def scan_rows_zero)

lemma regions_low:
  "pdata p = Some d \<Longrightarrow> \<forall>v\<in>set d. v \<le> 0.5 \<Longrightarrow> cm_regions (postprocessChangeMask p) = []"
  by (simp add: postprocessChangeMask_def Let_def binary_mask_low findChangeRegions_zero)

text \<open>
  Claim C4. When the change model's mask yields no region, as when every value of the
  prediction is below 0.5, \<open>detectChanges\<close> returns at once with \<open>hasChange\<close> false, no
  changes and confidence 0.95; the only call it has made is the run of the change
  model, and the outcome is the same whatever the building-detection model would
  answer: that model is not run.
\<close>

theorem detectChanges_early_exit:
  assumes "unet_predict env beforeImage afterImage = Inr p"
    and "cm_regions (postprocessChangeMask p) = []
         \<or> (\<exists>d. pdata p = Some d \<and> (\<forall>v\<in>set d. v < 0.5))"
  shows "detectChanges env w beforeImage afterImage center =
           (\<lparr>hasChange = False, d_confidence = 0.95, changes = [],
             analysisDate = toISOString env (now env), d_method = ''UNet + Mask R-CNN'',
             changeRegions = None, buildingsDetected = None\<rparr>,
            w\<lparr>events := events w @ [UNetInference]\<rparr>)
         \<and> events (snd (detectChanges env w beforeImage afterImage center))
             = events w @ [UNetInference]
         \<and> (\<forall>M. detectChanges (env\<lparr>maskrcnn_predict := M\<rparr>) w beforeImage afterImage center
                = detectChanges env w beforeImage afterImage center)
         \<and> cm_regions (postprocessChangeMask p) = []"
proof -
  have none: "cm_regions (postprocessChangeMask p) = []"
    using assms(2)
  proof
    assume "cm_regions (postprocessChangeMask p) = []"
    then show ?thesis .
  next
    assume "\<exists>d. pdata p = Some d \<and> (\<forall>v\<in>set d. v < 0.5)"
    then obtain d where "pdata p = Some d" "\<forall>v\<in>set d. v \<le> 0.5"
      by fastforce
    then show ?thesis by (rule regions_low)
  qed
  then show ?thesis
    using assms(1) by (simp add: detectChanges_def detectChangesWithUNet_def Let_def)
qed

theorem detectChanges_early_exit_witness:
  "unet_predict (demo_env (Inr low_prediction) (Inr (TensorArray one_box, 800, 800)) (\<lambda>k. 0))
      demo_image demo_image = Inr low_prediction
   \<and> pdata low_prediction = Some [1 / 10, 2 / 10, 3 / 10, 4 / 10]
   \<and> detectChanges (demo_env (Inr low_prediction) (Inr (TensorArray one_box, 800, 800)) (\<lambda>k. 0))
        world0 demo_image demo_image \<lparr>c_lat = 17.4, c_lng = 78.5\<rparr>
      = (\<lparr>hasChange = False, d_confidence = 0.95, changes = [],
          analysisDate = ''0'', d_method = ''UNet + Mask R-CNN'',
          changeRegions = None, buildingsDetected = None\<rparr>,
         world0\<lparr>events := [UNetInference]\<rparr>)"
proof -
  let ?env = "demo_env (Inr low_prediction) (Inr (TensorArray one_box, 800, 800)) (\<lambda>k. 0)"
  have u: "unet_predict ?env demo_image demo_image = Inr low_prediction"
    by (simp add: demo_env_def)
  have d: "pdata low_prediction = Some [1 / 10, 2 / 10, 3 / 10, 4 / 10]"
    by (simp add: low_prediction_def)
  have low: "cm_regions (postprocessChangeMask low_prediction) = []
         \<or> (\<exists>d. pdata low_prediction = Some d \<and> (\<forall>v\<in>set d. v < 0.5))"
    by (simp add: d)
  have iso: "toISOString ?env (now ?env) = ''0''"
    by (simp add: demo_env_def js_int_to_string_def string_of_nat.simps digit_char_def)
  have ev: "events world0 = []"
    by (simp add: world0_def)
  from detectChanges_early_exit [OF u low, of world0 "\<lparr>c_lat = 17.4, c_lng = 78.5\<rparr>"]
  show ?thesis
    using u d by (simp add: iso ev)
qed

lemma fallback_loop_closed:
  "fallback_loop env b a c n i (acc, w) =
     (acc @ map (\<lambda>j. fallback_change env b a c (i + int j) (draws w + 6 * j)) [0..<nat (n - i)],
      w\<lparr>draws := draws w + 6 * nat (n - i)\<rparr>)"
proof (induction "nat (n - i)" arbitrary: i acc w)
  case 0
  then have "\<not> i < n" by simp
  then show ?case
    using 0 by (subst fallback_loop.simps) simp
next
  case (Suc k)
  then have lt: "i < n" and k: "k = nat (n - (i + 1))"
    by linarith+
  have step: "fallback_loop env b a c n i (acc, w) =
      fallback_loop env b a c n (i + 1)
        (acc @ [fallback_change env b a c i (draws w)], w\<lparr>draws := draws w + 6\<rparr>)"
    using lt by (subst fallback_loop.simps) simp
  have n: "nat (n - i) = Suc (nat (n - (i + 1)))"
    using lt by linarith
  have shift: "map (\<lambda>j. fallback_change env b a c (i + int j) (draws w + 6 * j)) [0..<Suc m]
      = fallback_change env b a c i (draws w)
        # map (\<lambda>j. fallback_change env b a c (i + 1 + int j) (draws w + 6 + 6 * j)) [0..<m]" for m
    by (simp add: upt_conv_Cons map_Suc_upt [symmetric] del: upt_Suc)
       (simp add: add.commute add.left_commute add.assoc)
  show ?case
    unfolding step Suc.hyps(1) [OF k] n shift
    by simp
qed

lemma fallback_change_near:
  assumes "\<forall>k. 0 \<le> random env k \<and> random env k < 1"
  shows "\<bar>c_lat (coordinates (fallback_change env b a c i k)) - c_lat c\<bar> \<le> 0.005
       \<and> \<bar>c_lng (coordinates (fallback_change env b a c i k)) - c_lng c\<bar> \<le> 0.005
       \<and> detectionMethod (fallback_change env b a c i k) = ''Fallback''"
proof -
  have r0: "0 \<le> random env k" "random env k < 1"
    and r1: "0 \<le> random env (k + 1)" "random env (k + 1) < 1"
    using assms by auto
  have scale: "\<bar>(x - 0.5) * 0.01\<bar> \<le> 0.005" if "0 \<le> x" "x < 1" for x :: real
  proof -
    have "x - 0.5 \<le> 0.5" "- (x - 0.5) \<le> 0.5"
      using that by simp_all
    then have "\<bar>x - 0.5\<bar> \<le> 0.5"
      by (rule abs_leI)
    moreover have "\<bar>(x - 0.5) * 0.01\<bar> = \<bar>x - 0.5\<bar> * 0.01"
      by (simp add: abs_mult)
    ultimately show ?thesis by simp
  qed
  have "\<bar>(random env k - 0.5) * 0.01\<bar> \<le> 0.005" "\<bar>(random env (k + 1) - 0.5) * 0.01\<bar> \<le> 0.005"
    using scale [OF r0] scale [OF r1] by simp_all
  then show ?thesis
    by (simp add: fallback_change_def Let_def)
qed

lemma fallbackDetection_shape:
  assumes rnd: "\<forall>k. 0 \<le> random env k \<and> random env k < 1"
  shows "d_method (fst (fallbackDetection env w b a c)) = ''Fallback (No ML models available)''
     \<and> (if hasChange (fst (fallbackDetection env w b a c))
         then 1 \<le> length (changes (fst (fallbackDetection env w b a c)))
              \<and> length (changes (fst (fallbackDetection env w b a c))) \<le> 3
         else changes (fst (fallbackDetection env w b a c)) = [])
     \<and> (\<forall>ch\<in>set (changes (fst (fallbackDetection env w b a c))).
           \<bar>c_lat (coordinates ch) - c_lat c\<bar> \<le> 0.005
         \<and> \<bar>c_lng (coordinates ch) - c_lng c\<bar> \<le> 0.005
         \<and> detectionMethod ch = ''Fallback'')"
proof (cases "random env (draws w) > 0.6")
  case False
  then show ?thesis
    by (simp add: fallbackDetection_def Let_def)
next
  case True
  let ?n = "\<lfloor>random env (Suc (draws w)) * 3\<rfloor> + 1"
  have "0 \<le> random env (Suc (draws w))" "random env (Suc (draws w)) < 1"
    using rnd by auto
  then have "0 \<le> \<lfloor>random env (Suc (draws w)) * 3\<rfloor>" "\<lfloor>random env (Suc (draws w)) * 3\<rfloor> < 3"
    by (simp_all add: floor_less_iff)
  then have n: "1 \<le> nat ?n" "nat ?n \<le> 3"
    by linarith+
  have res: "fst (fallbackDetection env w b a c) =
      \<lparr>hasChange = True, d_confidence = random env (draws w),
       changes = map (\<lambda>j. fallback_change env b a c (int j) (Suc (Suc (draws w)) + 6 * j)) [0..<nat ?n],
       analysisDate = toISOString env (now env),
       d_method = ''Fallback (No ML models available)'',
       changeRegions = None, buildingsDetected = None\<rparr>"
    using True by (simp add: fallbackDetection_def Let_def fallback_loop_closed)
  show ?thesis
    unfolding res using n fallback_change_near [OF rnd]
    by simp
qed

text \<open>
  Claim C5. When the change-model run throws, or the building-model run throws after
  regions were found, \<open>detectChanges\<close> returns what \<open>fallbackDetection\<close> returns. With
  \<open>Math.random\<close> in \<open>[0, 1)\<close> that result has either \<open>hasChange\<close> false and no
  changes, or \<open>hasChange\<close> true and one to three changes; every change lies within 0.005
  degrees of the query point in latitude and in longitude and carries the method
  "Fallback", which is not the label of the model path. (The georeferencing step of the
  model has no failing branch.)
\<close>

theorem detectChanges_fallback:
  assumes rnd: "\<forall>k. 0 \<le> random env k \<and> random env k < 1"
    and fails: "(\<exists>e. unet_predict env b a = Inl e)
       \<or> (\<exists>p e. unet_predict env b a = Inr p \<and> cm_regions (postprocessChangeMask p) \<noteq> []
                \<and> maskrcnn_predict env a = Inl e)"
  shows "(\<exists>w'. detectChanges env w b a c = fallbackDetection env w' b a c)
     \<and> d_method (fst (detectChanges env w b a c)) = ''Fallback (No ML models available)''
     \<and> d_method (fst (detectChanges env w b a c)) \<noteq> ''UNet + Mask R-CNN''
     \<and> (if hasChange (fst (detectChanges env w b a c))
         then 1 \<le> length (changes (fst (detectChanges env w b a c)))
              \<and> length (changes (fst (detectChanges env w b a c))) \<le> 3
         else changes (fst (detectChanges env w b a c)) = [])
     \<and> (\<forall>ch\<in>set (changes (fst (detectChanges env w b a c))).
           \<bar>c_lat (coordinates ch) - c_lat c\<bar> \<le> 0.005
         \<and> \<bar>c_lng (coordinates ch) - c_lng c\<bar> \<le> 0.005
         \<and> detectionMethod ch = ''Fallback''
         \<and> detectionMethod ch \<noteq> ''UNet + Mask R-CNN'')"
proof -
  have "\<exists>w'. detectChanges env w b a c = fallbackDetection env w' b a c"
    using fails
    by (auto simp: detectChanges_def detectChangesWithUNet_def detectBuildingsWithMaskRCNN_def
          Let_def)
  then obtain w' where eq: "detectChanges env w b a c = fallbackDetection env w' b a c"
    by blast
  show ?thesis
    using fallbackDetection_shape [OF rnd, of w' b a c]
    unfolding eq [symmetric]
    using eq by auto
qed

theorem detectChanges_fallback_witness:
  "unet_predict (failing_env (\<lambda>k. 7 / 10)) demo_image demo_image = Inl (Error ''model failed'')
   \<and> hasChange (fst (detectChanges (failing_env (\<lambda>k. 7 / 10)) world0 demo_image demo_image
         \<lparr>c_lat = 17.4, c_lng = 78.5\<rparr>))
   \<and> map (\<lambda>ch. (c_lat (coordinates ch), c_lng (coordinates ch), detectionMethod ch))
         (changes (fst (detectChanges (failing_env (\<lambda>k. 7 / 10)) world0 demo_image demo_image
            \<lparr>c_lat = 17.4, c_lng = 78.5\<rparr>)))
       = [(17.402, 78.502, ''Fallback''), (17.402, 78.502, ''Fallback''),
          (17.402, 78.502, ''Fallback'')]
   \<and> d_method (fst (detectChanges (failing_env (\<lambda>k. 7 / 10)) world0 demo_image demo_image
         \<lparr>c_lat = 17.4, c_lng = 78.5\<rparr>)) = ''Fallback (No ML models available)''
   \<and> \<not> hasChange (fst (detectChanges (failing_env (\<lambda>k. 1 / 2)) world0 demo_image demo_image
         \<lparr>c_lat = 17.4, c_lng = 78.5\<rparr>))
   \<and> changes (fst (detectChanges (failing_env (\<lambda>k. 1 / 2)) world0 demo_image demo_image
         \<lparr>c_lat = 17.4, c_lng = 78.5\<rparr>)) = []"
proof -
  let ?c = "\<lparr>c_lat = 17.4, c_lng = 78.5\<rparr>"
  have u: "unet_predict (failing_env R) demo_image demo_image = Inl (Error ''model failed'')" for R
    by (simp add: failing_env_def demo_env_def)
  then have fails: "(\<exists>e. unet_predict (failing_env R) demo_image demo_image = Inl e)
       \<or> (\<exists>p e. unet_predict (failing_env R) demo_image demo_image = Inr p
                \<and> cm_regions (postprocessChangeMask p) \<noteq> []
                \<and> maskrcnn_predict (failing_env R) demo_image = Inl e)" for R
    by simp
  have r7: "\<forall>k. 0 \<le> random (failing_env (\<lambda>k. 7 / 10)) k \<and> random (failing_env (\<lambda>k. 7 / 10)) k < 1"
    by (simp add: failing_env_def demo_env_def)
  have r5: "\<forall>k. 0 \<le> random (failing_env (\<lambda>k. 1 / 2)) k \<and> random (failing_env (\<lambda>k. 1 / 2)) k < 1"
    by (simp add: failing_env_def demo_env_def)
  note t7 = detectChanges_fallback [OF r7 fails, of world0 ?c]
  note t5 = detectChanges_fallback [OF r5 fails, of world0 ?c]
  have e7: "detectChanges (failing_env (\<lambda>k. 7 / 10)) world0 demo_image demo_image ?c
       = fallbackDetection (failing_env (\<lambda>k. 7 / 10)) (world0\<lparr>events := [UNetInference]\<rparr>)
           demo_image demo_image ?c"
    by (simp add: detectChanges_def detectChangesWithUNet_def u Let_def world0_def)
  have e5: "detectChanges (failing_env (\<lambda>k. 1 / 2)) world0 demo_image demo_image ?c
       = fallbackDetection (failing_env (\<lambda>k. 1 / 2)) (world0\<lparr>events := [UNetInference]\<rparr>)
           demo_image demo_image ?c"
    by (simp add: detectChanges_def detectChangesWithUNet_def u Let_def world0_def)
  have rnd7: "random (failing_env (\<lambda>k. 7 / 10)) k = 7 / 10" for k
    by (simp add: failing_env_def demo_env_def)
  have rnd5: "random (failing_env (\<lambda>k. 1 / 2)) k = 1 / 2" for k
    by (simp add: failing_env_def demo_env_def)
  have n3: "nat (\<lfloor>(7 / 10 :: real) * 3\<rfloor> + 1) = 3"
    by simp
  have h7: "hasChange (fst (detectChanges (failing_env (\<lambda>k. 7 / 10)) world0 demo_image demo_image ?c))"
    unfolding e7 by (simp add: fallbackDetection_def Let_def rnd7)
  have c7: "map (\<lambda>ch. (c_lat (coordinates ch), c_lng (coordinates ch), detectionMethod ch))
         (changes (fst (detectChanges (failing_env (\<lambda>k. 7 / 10)) world0 demo_image demo_image ?c)))
       = [(17.402, 78.502, ''Fallback''), (17.402, 78.502, ''Fallback''),
          (17.402, 78.502, ''Fallback'')]"
    unfolding e7 by (simp add: fallbackDetection_def Let_def rnd7 fallback_loop_closed n3
          fallback_change_def upt_conv_Cons del: upt_Suc)
  have h5: "\<not> hasChange (fst (detectChanges (failing_env (\<lambda>k. 1 / 2)) world0 demo_image demo_image ?c))"
    unfolding e5 by (simp add: fallbackDetection_def Let_def rnd5)
  from t5 h5 have c5: "changes (fst (detectChanges (failing_env (\<lambda>k. 1 / 2)) world0 demo_image demo_image ?c)) = []"
    by presburger
  from t7 have m7: "d_method (fst (detectChanges (failing_env (\<lambda>k. 7 / 10)) world0 demo_image demo_image ?c))
      = ''Fallback (No ML models available)''"
    by blast
  show ?thesis
    using u h7 c7 m7 h5 c5 by blast
qed

lemma area_building_change:
  "area (building_change env b a c ib) =
     max (box_width (b_bbox (snd ib)) * box_height (b_bbox (snd ib)) * 0.5) 50
   \<and> c_bbox (building_change env b a c ib) = Some (b_bbox (snd ib))
   \<and> detectionMethod (building_change env b a c ib) = ''UNet + Mask R-CNN''"
  by (simp add: building_change_def Let_def)

lemma fallback_methods:
  "\<forall>ch\<in>set (changes (fst (fallbackDetection env w b a c))). detectionMethod ch = ''Fallback''"
  by (simp add: fallbackDetection_def Let_def fallback_loop_closed fallback_change_def)

lemma detectChanges_cases:
  "(\<exists>w'. detectChanges env w b a c = fallbackDetection env w' b a c)
   \<or> changes (fst (detectChanges env w b a c)) = []
   \<or> (\<exists>buildings. changes (fst (detectChanges env w b a c))
          = map (building_change env b a c) (enumerate 0 buildings))"
  by (auto simp: detectChanges_def Let_def split: prod.splits sum.splits)

lemma detectChanges_main_path:
  assumes "unet_predict env b a = Inr p" "cm_regions (postprocessChangeMask p) \<noteq> []"
    "maskrcnn_predict env a = Inr (preds, iw, ih)"
  shows "fst (detectChanges env w b a c) =
     \<lparr>hasChange = True, d_confidence = foldl max 0 (cm_confidence (postprocessChangeMask p)),
      changes = map (building_change env b a c)
        (enumerate 0 (filterBuildingsInChangeRegions (postprocessMaskRCNN preds iw ih)
           (cm_regions (postprocessChangeMask p)))),
      analysisDate = toISOString env (now env), d_method = ''UNet + Mask R-CNN'',
      changeRegions = Some (length (cm_regions (postprocessChangeMask p))),
      buildingsDetected = Some (length (filterBuildingsInChangeRegions
         (postprocessMaskRCNN preds iw ih) (cm_regions (postprocessChangeMask p))))\<rparr>"
  using assms
  by (simp add: detectChanges_def detectChangesWithUNet_def detectBuildingsWithMaskRCNN_def
        Let_def)

lemma map_over_enumerate:
  assumes "\<And>ib. h (k ib) = g (snd ib)"
  shows "map h (map k (enumerate n xs)) = map g xs"
  by (induction xs arbitrary: n) (simp_all add: assms)

lemma fallback_method_label:
  "d_method (fst (fallbackDetection env w b a c)) = ''Fallback (No ML models available)''"
  by (simp add: fallbackDetection_def Let_def)

lemma detectChanges_model_path:
  assumes "hasChange (fst (detectChanges env w b a c))"
    and "d_method (fst (detectChanges env w b a c)) = ''UNet + Mask R-CNN''"
  shows "\<exists>p preds iw ih. unet_predict env b a = Inr p
      \<and> cm_regions (postprocessChangeMask p) \<noteq> []
      \<and> maskrcnn_predict env a = Inr (preds, iw, ih)"
proof (cases "unet_predict env b a")
  case (Inl e)
  then have "detectChanges env w b a c
      = fallbackDetection env (w\<lparr>events := events w @ [UNetInference]\<rparr>) b a c"
    by (simp add: detectChanges_def detectChangesWithUNet_def Let_def)
  then have "d_method (fst (detectChanges env w b a c)) = ''Fallback (No ML models available)''"
    by (simp only: fallback_method_label)
  with assms(2) show ?thesis
    by simp
next
  case (Inr p)
  show ?thesis
  proof (cases "cm_regions (postprocessChangeMask p) = []")
    case True
    with Inr have "\<not> hasChange (fst (detectChanges env w b a c))"
      by (simp add: detectChanges_def detectChangesWithUNet_def Let_def)
    with assms(1) show ?thesis by simp
  next
    case False
    show ?thesis
    proof (cases "maskrcnn_predict env a")
      case (Inl e)
      with Inr False have "\<exists>w'. detectChanges env w b a c = fallbackDetection env w' b a c"
        by (auto simp: detectChanges_def detectChangesWithUNet_def
              detectBuildingsWithMaskRCNN_def Let_def)
      then obtain w' where "detectChanges env w b a c = fallbackDetection env w' b a c"
        by blast
      then have "d_method (fst (detectChanges env w b a c)) = ''Fallback (No ML models available)''"
        by (simp only: fallback_method_label)
      with assms(2) show ?thesis
        by simp
    next
      case r: (Inr res)
      obtain preds iw ih where "res = (preds, iw, ih)"
        by (cases res)
      with Inr False r show ?thesis by blast
    qed
  qed
qed

text \<open>
  Claim C8. On the model path (both model runs answer and regions were found) the result
  has \<open>hasChange\<close> and the model label, and its changes are, one per detection that the
  region filter keeps and in that order, records with the detection's box, the model
  method, and as area the maximum of half the product of the box's width and height and
  50. A result with \<open>hasChange\<close> and the model label comes from that path. So every
  change of a result with the model label, and every change carrying the model method,
  has an area of at least 50, never zero, whatever the box.
\<close>

theorem main_path_area_floor:
  "(unet_predict env b a = Inr p \<and> cm_regions (postprocessChangeMask p) \<noteq> []
      \<and> maskrcnn_predict env a = Inr (preds, iw, ih) \<longrightarrow>
      hasChange (fst (detectChanges env w b a c))
      \<and> d_method (fst (detectChanges env w b a c)) = ''UNet + Mask R-CNN''
      \<and> map area (changes (fst (detectChanges env w b a c))) =
          map (\<lambda>bld. max (box_width (b_bbox bld) * box_height (b_bbox bld) * 0.5) 50)
            (filterBuildingsInChangeRegions (postprocessMaskRCNN preds iw ih)
               (cm_regions (postprocessChangeMask p)))
      \<and> map c_bbox (changes (fst (detectChanges env w b a c))) =
          map (\<lambda>bld. Some (b_bbox bld))
            (filterBuildingsInChangeRegions (postprocessMaskRCNN preds iw ih)
               (cm_regions (postprocessChangeMask p)))
      \<and> map detectionMethod (changes (fst (detectChanges env w b a c))) =
          map (\<lambda>bld. ''UNet + Mask R-CNN'')
            (filterBuildingsInChangeRegions (postprocessMaskRCNN preds iw ih)
               (cm_regions (postprocessChangeMask p))))
   \<and> (hasChange (fst (detectChanges env w b a c))
      \<and> d_method (fst (detectChanges env w b a c)) = ''UNet + Mask R-CNN'' \<longrightarrow>
      (\<exists>q preds' iw' ih'. unet_predict env b a = Inr q
         \<and> cm_regions (postprocessChangeMask q) \<noteq> []
         \<and> maskrcnn_predict env a = Inr (preds', iw', ih')))
   \<and> (d_method (fst (detectChanges env w b a c)) = ''UNet + Mask R-CNN'' \<longrightarrow>
      (\<forall>ch\<in>set (changes (fst (detectChanges env w b a c))).
         detectionMethod ch = ''UNet + Mask R-CNN'' \<and> 50 \<le> area ch \<and> area ch \<noteq> 0))
   \<and> (\<forall>ch\<in>set (changes (fst (detectChanges env w b a c))).
      detectionMethod ch = ''UNet + Mask R-CNN'' \<longrightarrow>
        (\<exists>bb. c_bbox ch = Some bb \<and> area ch = max (box_width bb * box_height bb * 0.5) 50)
        \<and> 50 \<le> area ch \<and> area ch \<noteq> 0)"
  (is "?path \<and> ?conv \<and> ?label \<and> ?each")
proof -
  let ?R = "fst (detectChanges env w b a c)"
  have each: ?each
  proof (intro ballI impI)
    fix ch
    assume ch: "ch \<in> set (changes ?R)"
      and m: "detectionMethod ch = ''UNet + Mask R-CNN''"
    from detectChanges_cases [of env w b a c]
    consider w' where "detectChanges env w b a c = fallbackDetection env w' b a c"
      | "changes ?R = []"
      | buildings where "changes ?R = map (building_change env b a c) (enumerate 0 buildings)"
      by blast
    then have "\<exists>ib. ch = building_change env b a c ib"
    proof cases
      case 1
      with ch fallback_methods [of env w' b a c] have "detectionMethod ch = ''Fallback''"
        by simp
      with m show ?thesis by simp
    next
      case 2
      with ch show ?thesis by simp
    next
      case 3
      with ch show ?thesis by auto
    qed
    then obtain ib where ib: "ch = building_change env b a c ib"
      by blast
    have ar: "area ch = max (box_width (b_bbox (snd ib)) * box_height (b_bbox (snd ib)) * 0.5) 50"
      and bb: "c_bbox ch = Some (b_bbox (snd ib))"
      unfolding ib using area_building_change [of env b a c ib] by simp_all
    from ar have "50 \<le> area ch"
      by simp
    with ar bb show "(\<exists>bb. c_bbox ch = Some bb \<and> area ch = max (box_width bb * box_height bb * 0.5) 50)
        \<and> 50 \<le> area ch \<and> area ch \<noteq> 0"
      by auto
  qed
  have path: ?path
  proof (intro impI, elim conjE)
    assume u: "unet_predict env b a = Inr p"
      and r: "cm_regions (postprocessChangeMask p) \<noteq> []"
      and m: "maskrcnn_predict env a = Inr (preds, iw, ih)"
    let ?kept = "filterBuildingsInChangeRegions (postprocessMaskRCNN preds iw ih)
               (cm_regions (postprocessChangeMask p))"
    note res = detectChanges_main_path [OF u r m, of w c]
    have ch: "changes ?R = map (building_change env b a c) (enumerate 0 ?kept)"
      by (simp add: res)
    have a1: "map area (changes ?R) =
        map (\<lambda>bld. max (box_width (b_bbox bld) * box_height (b_bbox bld) * 0.5) 50) ?kept"
      unfolding ch by (rule map_over_enumerate) (simp add: area_building_change)
    have a2: "map c_bbox (changes ?R) = map (\<lambda>bld. Some (b_bbox bld)) ?kept"
      unfolding ch by (rule map_over_enumerate) (simp add: area_building_change)
    have a3: "map detectionMethod (changes ?R) = map (\<lambda>bld. ''UNet + Mask R-CNN'') ?kept"
      unfolding ch by (rule map_over_enumerate) (simp add: area_building_change)
    have "hasChange ?R" "d_method ?R = ''UNet + Mask R-CNN''"
      by (simp_all add: res)
    with a1 a2 a3 show "hasChange ?R \<and> d_method ?R = ''UNet + Mask R-CNN''
      \<and> map area (changes ?R) =
          map (\<lambda>bld. max (box_width (b_bbox bld) * box_height (b_bbox bld) * 0.5) 50) ?kept
      \<and> map c_bbox (changes ?R) = map (\<lambda>bld. Some (b_bbox bld)) ?kept
      \<and> map detectionMethod (changes ?R) = map (\<lambda>bld. ''UNet + Mask R-CNN'') ?kept"
      by blast
  qed
  have conv: ?conv
    using detectChanges_model_path [of env w b a c] by blast
  have label: ?label
  proof (intro impI ballI)
    fix ch
    assume dm: "d_method ?R = ''UNet + Mask R-CNN''" and ch: "ch \<in> set (changes ?R)"
    from ch have "changes ?R \<noteq> []"
      by auto
    have "detectionMethod ch = ''UNet + Mask R-CNN''"
    proof (cases "hasChange ?R")
      case True
      with dm conv obtain q preds' iw' ih' where u: "unet_predict env b a = Inr q"
        and r: "cm_regions (postprocessChangeMask q) \<noteq> []"
        and m: "maskrcnn_predict env a = Inr (preds', iw', ih')"
        by blast
      have "changes ?R = map (building_change env b a c)
          (enumerate 0 (filterBuildingsInChangeRegions (postprocessMaskRCNN preds' iw' ih')
             (cm_regions (postprocessChangeMask q))))"
        by (simp add: detectChanges_main_path [OF u r m])
      with ch obtain ib where "ch = building_change env b a c ib"
        by auto
      then show ?thesis
        by (simp add: area_building_change)
    next
      case False
      from detectChanges_cases [of env w b a c]
      consider w' where "detectChanges env w b a c = fallbackDetection env w' b a c"
        | "changes ?R = []"
        | buildings where "changes ?R = map (building_change env b a c) (enumerate 0 buildings)"
        by blast
      then show ?thesis
      proof cases
        case 1
        then have "d_method ?R = ''Fallback (No ML models available)''"
          by (simp only: fallback_method_label)
        with dm show ?thesis by simp
      next
        case 2
        with ch show ?thesis by simp
      next
        case 3
        with ch obtain ib where "ch = building_change env b a c ib"
          by auto
        then show ?thesis
          by (simp add: area_building_change)
      qed
    qed
    with each ch show "detectionMethod ch = ''UNet + Mask R-CNN'' \<and> 50 \<le> area ch \<and> area ch \<noteq> 0"
      by blast
  qed
  show ?thesis
    using path conv label each by blast
qed

lemma block_fill:
  "floodFill (replicate 180 1) {} 0 0 36 5
     \<lparr>rid = 0, pixels = [(0, 0)], bbox = \<lparr>rx = 0, ry = 0, rx2 = 0, ry2 = 0\<rparr>\<rparr> 4
   = ({0, 4, 8, 12, 16, 20, 24, 28, 32, 144, 148, 152, 156, 160, 164, 168, 172, 176},
      block_region)"
  by (simp add: floodFill_def floodFill_loop.simps neighbours_def add_pixel_def
        below_half_def js_index_def Let_def block_region_def insert_commute)

lemma block_regions: "findChangeRegions (replicate 180 1) 36 5 = [block_region]"
  by (simp add: findChangeRegions_def scan_rows.simps scan_row.simps scan_sample_def
        block_fill above_half_def js_index_def Let_def)
     (simp add: block_region_def)

lemma block_mask_regions: "cm_regions (postprocessChangeMask block_prediction) = [block_region]"
proof -
  have "binary_mask (replicate 180 (9 / 10)) = replicate 180 1"
    by (simp add: binary_mask_def)
  then show ?thesis
    by (simp add: postprocessChangeMask_def block_prediction_def shape_dim_def Let_def
          block_regions)
qed

lemma post_five_boxes:
  "postprocessMaskRCNN (TensorArray five_boxes) 800 800 =
     [\<lparr>b_id = ''building_0'',
       b_bbox = \<lparr>box_x = 0, box_y = 0, box_width = 20, box_height = 8\<rparr>,
       b_confidence = 9 / 10, b_class = Some 1\<rparr>,
      \<lparr>b_id = ''building_1'',
       b_bbox = \<lparr>box_x = 0, box_y = 0, box_width = 4, box_height = 5\<rparr>,
       b_confidence = 8 / 10, b_class = Some 2\<rparr>,
      \<lparr>b_id = ''building_2'',
       b_bbox = \<lparr>box_x = 8, box_y = 0, box_width = 0, box_height = 0\<rparr>,
       b_confidence = 9 / 10, b_class = Some 3\<rparr>,
      \<lparr>b_id = ''building_3'',
       b_bbox = \<lparr>box_x = 400, box_y = 400, box_width = 100, box_height = 100\<rparr>,
       b_confidence = 9 / 10, b_class = Some 1\<rparr>]"
  by (simp add: postprocessMaskRCNN_def five_boxes_def detection_at_def js_index_def
        js_int_to_string_def string_of_nat.simps digit_char_def upt_conv_Cons del: upt_Suc)

lemma kept_five_boxes:
  "filterBuildingsInChangeRegions (postprocessMaskRCNN (TensorArray five_boxes) 800 800)
     [block_region] =
     [\<lparr>b_id = ''building_0'',
       b_bbox = \<lparr>box_x = 0, box_y = 0, box_width = 20, box_height = 8\<rparr>,
       b_confidence = 9 / 10, b_class = Some 1\<rparr>,
      \<lparr>b_id = ''building_1'',
       b_bbox = \<lparr>box_x = 0, box_y = 0, box_width = 4, box_height = 5\<rparr>,
       b_confidence = 8 / 10, b_class = Some 2\<rparr>,
      \<lparr>b_id = ''building_2'',
       b_bbox = \<lparr>box_x = 8, box_y = 0, box_width = 0, box_height = 0\<rparr>,
       b_confidence = 9 / 10, b_class = Some 3\<rparr>]"
  unfolding post_five_boxes
  by (simp add: filterBuildingsInChangeRegions_def center_in_region_def block_region_def)

theorem main_path_area_floor_witness:
  "unet_predict block_env demo_image demo_image = Inr block_prediction
   \<and> cm_regions (postprocessChangeMask block_prediction) = [block_region]
   \<and> maskrcnn_predict block_env demo_image = Inr (TensorArray five_boxes, 800, 800)
   \<and> hasChange (fst (detectChanges block_env world0 demo_image demo_image
         \<lparr>c_lat = 17.4, c_lng = 78.5\<rparr>))
   \<and> map area (changes (fst (detectChanges block_env world0 demo_image demo_image
         \<lparr>c_lat = 17.4, c_lng = 78.5\<rparr>))) = [80, 50, 50]
   \<and> map c_bbox (changes (fst (detectChanges block_env world0 demo_image demo_image
         \<lparr>c_lat = 17.4, c_lng = 78.5\<rparr>)))
       = [Some \<lparr>box_x = 0, box_y = 0, box_width = 20, box_height = 8\<rparr>,
          Some \<lparr>box_x = 0, box_y = 0, box_width = 4, box_height = 5\<rparr>,
          Some \<lparr>box_x = 8, box_y = 0, box_width = 0, box_height = 0\<rparr>]
   \<and> map detectionMethod (changes (fst (detectChanges block_env world0 demo_image demo_image
         \<lparr>c_lat = 17.4, c_lng = 78.5\<rparr>)))
       = [''UNet + Mask R-CNN'', ''UNet + Mask R-CNN'', ''UNet + Mask R-CNN'']"
proof -
  let ?c = "\<lparr>c_lat = 17.4, c_lng = 78.5\<rparr>"
  let ?R = "fst (detectChanges block_env world0 demo_image demo_image ?c)"
  have u: "unet_predict block_env demo_image demo_image = Inr block_prediction"
    and m: "maskrcnn_predict block_env demo_image = Inr (TensorArray five_boxes, 800, 800)"
    by (simp_all add: block_env_def demo_env_def)
  have r: "cm_regions (postprocessChangeMask block_prediction) \<noteq> []"
    by (simp add: block_mask_regions)
  from main_path_area_floor [of block_env demo_image demo_image block_prediction
      "TensorArray five_boxes" 800 800 world0 ?c] u r m
  have h: "hasChange ?R"
    and a1: "map area (changes ?R) =
          map (\<lambda>bld. max (box_width (b_bbox bld) * box_height (b_bbox bld) * 0.5) 50)
            (filterBuildingsInChangeRegions (postprocessMaskRCNN (TensorArray five_boxes) 800 800)
               (cm_regions (postprocessChangeMask block_prediction)))"
    and a2: "map c_bbox (changes ?R) =
          map (\<lambda>bld. Some (b_bbox bld))
            (filterBuildingsInChangeRegions (postprocessMaskRCNN (TensorArray five_boxes) 800 800)
               (cm_regions (postprocessChangeMask block_prediction)))"
    and a3: "map detectionMethod (changes ?R) =
          map (\<lambda>bld. ''UNet + Mask R-CNN'')
            (filterBuildingsInChangeRegions (postprocessMaskRCNN (TensorArray five_boxes) 800 800)
               (cm_regions (postprocessChangeMask block_prediction)))"
    by blast+
  have b1: "map area (changes ?R) = [80, 50, 50]"
    unfolding a1 block_mask_regions kept_five_boxes by simp
  have b2: "map c_bbox (changes ?R)
       = [Some \<lparr>box_x = 0, box_y = 0, box_width = 20, box_height = 8\<rparr>,
          Some \<lparr>box_x = 0, box_y = 0, box_width = 4, box_height = 5\<rparr>,
          Some \<lparr>box_x = 8, box_y = 0, box_width = 0, box_height = 0\<rparr>]"
    unfolding a2 block_mask_regions kept_five_boxes by simp
  have b3: "map detectionMethod (changes ?R)
       = [''UNet + Mask R-CNN'', ''UNet + Mask R-CNN'', ''UNet + Mask R-CNN'']"
    unfolding a3 block_mask_regions kept_five_boxes by simp
  show ?thesis
    using u m h b1 b2 b3 block_mask_regions by blast
qed

section \<open>Properties of analyzeSite\<close>


lemma dot_not_digit: "\<not> is_digit CHR ''.''"
  by (simp add: is_digit_def)












end
